theory Spec2Isabelle
  imports Complex_Main "HOL-Library.Word"
begin

section \<open>Remote segmentation wrapper (remove\_bg\_pipeline/segment\_api.py)\<close>

text \<open>
  JSON values as Python sees them after decoding the request body, and as it builds them
  for the response. A dict is a map from keys to values.
\<close>

datatype jval =
    JNull
  | JBool bool
  | JInt int
  | JFloat real
  | JStr string
  | JList "jval list"
  | JObj "(string \<times> jval) list"

type_synonym jdict = "string \<rightharpoonup> jval"

text \<open>A raised Python exception: its class and the text that \<^verbatim>\<open>str(e)\<close> yields.\<close>

datatype exn = Exn string string

fun str_exn :: "exn \<Rightarrow> string" where
  "str_exn (Exn cls msg) = msg"

fun py_type_name :: "jval \<Rightarrow> string" where
  "py_type_name JNull = ''NoneType''"
| "py_type_name (JBool b) = ''bool''"
| "py_type_name (JInt i) = ''int''"
| "py_type_name (JFloat x) = ''float''"
| "py_type_name (JStr s) = ''str''"
| "py_type_name (JList xs) = ''list''"
| "py_type_name (JObj kvs) = ''dict''"

type_synonym u8 = "8 word"
type_synonym rgb = "u8 \<times> u8 \<times> u8"
type_synonym rgba = "u8 \<times> u8 \<times> u8 \<times> u8"
type_synonym mask = "bool list list"

text \<open>
  One detection of the zero-shot detector: the box \<open>[x1, y1, x2, y2]\<close>, its score and
  its text label (the aligned entries of \<^verbatim>\<open>results["boxes"]\<close>,
  \<^verbatim>\<open>results["scores"]\<close> and \<^verbatim>\<open>results["text_labels"]\<close>).
\<close>

record detection =
  det_box :: "real list"
  det_score :: real
  det_label :: string

text \<open>
  The collaborators the wrapper calls and does not implement: base64 and PNG codecs, the
  PIL decoder, the Grounding DINO detector (processor, model and post-processing), the
  SAM2 predictor (returning \<^verbatim>\<open>masks[0]\<close> as booleans) and the matplotlib overlay.
  Each one that can raise returns the exception on the left.
\<close>

record runtime =
  b64decode :: "string \<Rightarrow> exn + string"
  b64encode :: "string \<Rightarrow> string"
  image_open :: "string \<Rightarrow> exn + rgb list list"
  grounding_dino :: "rgb list list \<Rightarrow> string \<Rightarrow> jval \<Rightarrow> exn + detection list"
  sam2_predict :: "rgb list list \<Rightarrow> real list \<Rightarrow> exn + mask"
  png_encode :: "rgba list list \<Rightarrow> string"
  savefig :: "rgb list list \<Rightarrow> mask list \<Rightarrow> detection list \<Rightarrow> string"

text \<open>The trace of model invocations, in call order.\<close>

datatype event =
    CallInternal
  | RunDetector string
  | RunSegmenter "real list"

definition py_lower_char :: "char \<Rightarrow> char" where
  "py_lower_char c =
     (if (of_char (CHR ''A'') :: nat) \<le> of_char c \<and> (of_char c :: nat) \<le> of_char (CHR ''Z'')
      then char_of ((of_char c :: nat) + 32) else c)"

definition py_lower :: "string \<Rightarrow> string" where
  "py_lower s = map py_lower_char s"

definition endswith_dot :: "string \<Rightarrow> bool" where
  "endswith_dot s = (s \<noteq> [] \<and> last s = CHR ''.'')"

definition format_prompt :: "string \<Rightarrow> string" where
  "format_prompt text_prompt =
     py_lower (if \<not> endswith_dot text_prompt then text_prompt @ ''.'' else text_prompt)"

text \<open>The loop \<^verbatim>\<open>for box in boxes\<close>: one SAM2 call per box, stopping at the first exception.\<close>

fun predict_all ::
  "runtime \<Rightarrow> rgb list list \<Rightarrow> real list list \<Rightarrow> event list \<Rightarrow> (exn + mask list) \<times> event list"
where
  "predict_all rt img [] tr = (Inr [], tr)"
| "predict_all rt img (b # bs) tr =
     (case sam2_predict rt img b of
        Inl e \<Rightarrow> (Inl e, tr @ [RunSegmenter b])
      | Inr m \<Rightarrow>
          (case predict_all rt img bs (tr @ [RunSegmenter b]) of
             (Inl e, tr') \<Rightarrow> (Inl e, tr')
           | (Inr ms, tr') \<Rightarrow> (Inr (m # ms), tr')))"

definition same_shape :: "'a list list \<Rightarrow> 'b list list \<Rightarrow> bool" where
  "same_shape a b = (map length a = map length b)"

text \<open>
  \<^verbatim>\<open>masked_rgba = zeros((H, W, 4)); masked_rgba[mask] = concat(img[mask], 255)\<close>:
  the pixel with alpha 255 under the mask, all four channels zero elsewhere.
\<close>

definition apply_mask :: "rgb list list \<Rightarrow> mask \<Rightarrow> rgba list list" where
  "apply_mask img m =
     map2 (map2 (\<lambda>(r, g, b) k. if k then (r, g, b, 255) else (0, 0, 0, 0))) img m"

definition base_result :: "mask list \<Rightarrow> detection list \<Rightarrow> jdict" where
  "base_result masks_array dets =
     [''num_objects'' \<mapsto> JInt (int (length masks_array)),
      ''boxes'' \<mapsto> JList (map (\<lambda>d. JList (map JFloat (det_box d))) dets),
      ''scores'' \<mapsto> JList (map (\<lambda>d. JFloat (det_score d)) dets),
      ''labels'' \<mapsto> JList (map (\<lambda>d. JStr (det_label d)) dets)]"

definition segment_objects_internal ::
  "runtime \<Rightarrow> string \<Rightarrow> jval \<Rightarrow> jval \<Rightarrow> bool \<Rightarrow> event list \<Rightarrow> (exn + jdict) \<times> event list"
where
  "segment_objects_internal rt image_bytes text_prompt box_threshold return_visualization tr0 =
     (let tr = tr0 @ [CallInternal] in
      case image_open rt image_bytes of
        Inl e \<Rightarrow> (Inl e, tr)
      | Inr img \<Rightarrow>
     (case text_prompt of
        JStr s \<Rightarrow>
          (let prompt = format_prompt s in
           case grounding_dino rt img prompt box_threshold of
             Inl e \<Rightarrow> (Inl e, tr @ [RunDetector prompt])
           | Inr dets \<Rightarrow>
          (case predict_all rt img (map det_box dets) (tr @ [RunDetector prompt]) of
             (Inl e, tr') \<Rightarrow> (Inl e, tr')
           | (Inr masks_array, tr') \<Rightarrow>
          (let result = base_result masks_array dets in
           if length masks_array > 0 then
             (let combined_mask = masks_array ! 0 in
              if \<not> same_shape img combined_mask
              then (Inl (Exn ''IndexError'' ''boolean index did not match indexed array''), tr')
              else
                (let result = result(''masked_image_base64'' \<mapsto>
                       JStr (b64encode rt (png_encode rt (apply_mask img combined_mask))))
                 in if return_visualization
                    then (Inr (result(''visualization_base64'' \<mapsto>
                                 JStr (b64encode rt (savefig rt img masks_array dets)))), tr')
                    else (Inr result, tr')))
           else (Inr result, tr'))))
      | other \<Rightarrow>
          (Inl (Exn ''AttributeError''
                 ([CHR 0x27] @ py_type_name other @ [CHR 0x27] @
                  '' object has no attribute '' @ [CHR 0x27] @ ''endswith'' @ [CHR 0x27])), tr)))"

text \<open>
  The endpoint returns either the result dict alone, or a pair of an error dict and a
  status code.
\<close>

datatype response =
    Reply jdict
  | ReplyStatus jdict nat

definition error_reply :: "string \<Rightarrow> nat \<Rightarrow> response" where
  "error_reply msg status = ReplyStatus [''error'' \<mapsto> JStr msg] status"

definition missing_field :: "string \<Rightarrow> string" where
  "missing_field k = ''Missing '' @ [CHR 0x27] @ k @ [CHR 0x27] @ '' field''"

definition decode_image_field :: "runtime \<Rightarrow> jval \<Rightarrow> exn + string" where
  "decode_image_field rt v =
     (case v of
        JStr s \<Rightarrow> b64decode rt s
      | other \<Rightarrow>
          Inl (Exn ''TypeError''
                (''argument should be a bytes-like object or ASCII string, not '' @
                 [CHR 0x27] @ py_type_name other @ [CHR 0x27])))"

definition segment :: "runtime \<Rightarrow> jdict \<Rightarrow> response \<times> event list" where
  "segment rt data =
     (case data ''image_base64'' of
        None \<Rightarrow> (error_reply (missing_field ''image_base64'') 400, [])
      | Some image_base64 \<Rightarrow>
     (case data ''prompt'' of
        None \<Rightarrow> (error_reply (missing_field ''prompt'') 400, [])
      | Some prompt \<Rightarrow>
     (case decode_image_field rt image_base64 of
        Inl e \<Rightarrow> (error_reply (str_exn e) 500, [])
      | Inr image_bytes \<Rightarrow>
     (case segment_objects_internal rt image_bytes prompt
             (case data ''threshold'' of None \<Rightarrow> JFloat 0.3 | Some t \<Rightarrow> t) True [] of
        (Inl e, tr) \<Rightarrow> (error_reply (str_exn e) 500, tr)
      | (Inr result, tr) \<Rightarrow> (Reply result, tr)))))"


section \<open>Equirectangular test-pattern renderer (ios\_kiosk\_app)\<close>

text \<open>
  The renderer computes on numpy float64 arrays. A float64 value is modelled by the real
  number it denotes, and every arithmetic operation of the source by the exact operation
  followed by \<open>fl\<close>, the rounding to the nearest float64 with ties to even. The exponent
  range is not bounded (no overflow to infinity, no subnormal numbers); the values of the
  renderer stay far inside the normal range. Signed zeros, infinities and NaN are not
  modelled. Arrays are lists of rows; an image is a list of rows of RGB pixels with
  8-bit channels.
\<close>

subsection \<open>float64 rounding\<close>

definition round_half_even :: "real \<Rightarrow> int" where
  "round_half_even y =
     (let n = \<lfloor>y\<rfloor>; d = y - of_int n in
      if d < 1 / 2 then n else if 1 / 2 < d then n + 1 else if even n then n else n + 1)"

definition pow2 :: "int \<Rightarrow> real" where
  "pow2 e = (if 0 \<le> e then 2 ^ nat e else 1 / 2 ^ nat (- e))"

text \<open>
  With \<open>2\<^sup>e \<le> |x| < 2\<^sup>e\<^sup>+\<^sup>1\<close>, the float64 nearest to \<open>x\<close> is the nearest multiple of
  \<open>2\<^sup>e\<^sup>-\<^sup>5\<^sup>2\<close> (53 significant bits).
\<close>

definition fl :: "real \<Rightarrow> real" where
  "fl x =
     (if x = 0 then 0
      else (let e = \<lfloor>log 2 \<bar>x\<bar>\<rfloor> in
            of_int (round_half_even (x * pow2 (52 - e))) * pow2 (e - 52)))"

subsection \<open>Python and numpy primitives\<close>

text \<open>\<^verbatim>\<open>np.pi\<close> is the float64 nearest to \<open>\<pi>\<close>.\<close>

definition np_pi :: real where
  "np_pi = 884279719003555 / 2 ^ 48"

text \<open>\<^verbatim>\<open>int(x)\<close> and the C cast behind \<^verbatim>\<open>astype\<close> truncate towards zero.\<close>

definition py_int :: "real \<Rightarrow> int" where
  "py_int x = (if 0 \<le> x then \<lfloor>x\<rfloor> else \<lceil>x\<rceil>)"

definition astype_uint8 :: "real \<Rightarrow> u8" where
  "astype_uint8 x = word_of_int (py_int x)"

text \<open>C's \<^verbatim>\<open>fmod\<close> is exact: the remainder of the truncated quotient.\<close>

definition c_fmod :: "real \<Rightarrow> real \<Rightarrow> real" where
  "c_fmod a b = a - b * of_int (py_int (a / b))"

text \<open>
  numpy's \<^verbatim>\<open>npy_divmod\<close>, which computes \<^verbatim>\<open>//\<close> and \<^verbatim>\<open>%\<close> on float64 (Python's
  \<^verbatim>\<open>float_divmod\<close> is the same algorithm), for a divisor that is not zero:
  \<^verbatim>\<open>
  mod = fmod(a, b);  div = (a - mod) / b;
  if (mod) { if ((b < 0) != (mod < 0)) { mod += b; div -= 1.0; } }
  if (div) { floordiv = floor(div); if (div - floordiv > 0.5) floordiv += 1.0; }
  else floordiv = 0;
  \<close>
\<close>

definition npy_divmod :: "real \<Rightarrow> real \<Rightarrow> real \<times> real" where
  "npy_divmod a b =
     (let mod0 = c_fmod a b;
          div0 = fl (fl (a - mod0) / b);
          adjust = (mod0 \<noteq> 0 \<and> ((b < 0) \<noteq> (mod0 < 0)));
          mod1 = (if adjust then fl (mod0 + b) else mod0);
          div1 = (if adjust then fl (div0 - 1) else div0);
          floordiv =
            (if div1 \<noteq> 0
             then (if fl (div1 - of_int \<lfloor>div1\<rfloor>) > 0.5
                   then fl (of_int \<lfloor>div1\<rfloor> + 1) else of_int \<lfloor>div1\<rfloor>)
             else 0)
      in (floordiv, mod1))"

definition py_floordiv :: "real \<Rightarrow> real \<Rightarrow> real" where
  "py_floordiv a b = fst (npy_divmod a b)"

definition py_mod :: "real \<Rightarrow> real \<Rightarrow> real" where
  "py_mod a b = snd (npy_divmod a b)"

text \<open>\<^verbatim>\<open>np.deg2rad(x)\<close> is \<^verbatim>\<open>x * (NPY_PI / 180.0)\<close>.\<close>

definition deg2rad :: "real \<Rightarrow> real" where
  "deg2rad d = fl (d * fl (np_pi / 180))"

text \<open>
  \<^verbatim>\<open>np.linspace(start, stop, num)\<close> with the default \<^verbatim>\<open>endpoint=True\<close>:
  \<^verbatim>\<open>delta = stop - start; step = delta / (num - 1); y = arange(0, num) * step + start\<close>,
  the last sample set to \<open>stop\<close>; with a single sample, \<^verbatim>\<open>y = arange(0, num) * delta + start\<close>.
\<close>

definition linspace :: "real \<Rightarrow> real \<Rightarrow> nat \<Rightarrow> real list" where
  "linspace start stop num =
     map (\<lambda>i. if 1 < num \<and> i = num - 1 then stop
              else if 1 < num
              then fl (fl (real i * fl (fl (stop - start) / real (num - 1))) + start)
              else fl (fl (real i * fl (stop - start)) + start))
         [0..<num]"

definition meshgrid :: "'a list \<Rightarrow> 'b list \<Rightarrow> 'a list list \<times> 'b list list" where
  "meshgrid x y = (map (\<lambda>v. x) y, map (\<lambda>v. map (\<lambda>u. v) x) y)"

definition arr_map :: "('a \<Rightarrow> 'b) \<Rightarrow> 'a list list \<Rightarrow> 'b list list" where
  "arr_map f a = map (map f) a"

definition arr_map2 :: "('a \<Rightarrow> 'b \<Rightarrow> 'c) \<Rightarrow> 'a list list \<Rightarrow> 'b list list \<Rightarrow> 'c list list" where
  "arr_map2 f a b = map2 (map2 f) a b"

definition zeros :: "nat \<Rightarrow> nat \<Rightarrow> rgb list list" where
  "zeros height width = replicate height (replicate width (0, 0, 0))"

text \<open>\<^verbatim>\<open>img[:,:,0] = a\<close>, \<^verbatim>\<open>img[:,:,1] = a\<close> and \<^verbatim>\<open>img[:,:,2] = v\<close>.\<close>

definition set_red :: "rgb list list \<Rightarrow> u8 list list \<Rightarrow> rgb list list" where
  "set_red img a = arr_map2 (\<lambda>(r, g, b) v. (v, g, b)) img a"

definition set_green :: "rgb list list \<Rightarrow> u8 list list \<Rightarrow> rgb list list" where
  "set_green img a = arr_map2 (\<lambda>(r, g, b) v. (r, v, b)) img a"

definition set_blue :: "rgb list list \<Rightarrow> u8 \<Rightarrow> rgb list list" where
  "set_blue img v = arr_map (\<lambda>(r, g, b). (r, g, v)) img"

text \<open>\<^verbatim>\<open>(p * k).astype(np.uint8)\<close> on one pixel: the channels become float64, are multiplied and cast back.\<close>

definition scale_pixel :: "real \<Rightarrow> rgb \<Rightarrow> rgb" where
  "scale_pixel k p =
     (case p of (r, g, b) \<Rightarrow>
        (astype_uint8 (fl (real (unat r) * k)), astype_uint8 (fl (real (unat g) * k)),
         astype_uint8 (fl (real (unat b) * k))))"

text \<open>\<^verbatim>\<open>img[m] = (img[m] * k).astype(np.uint8)\<close> and \<^verbatim>\<open>img[m] = [255, 255, 255]\<close>.\<close>

definition darken_where :: "real \<Rightarrow> rgb list list \<Rightarrow> bool list list \<Rightarrow> rgb list list" where
  "darken_where k img m = arr_map2 (\<lambda>p c. if c then scale_pixel k p else p) img m"

definition white :: rgb where
  "white = (255, 255, 255)"

definition whiten_where :: "rgb list list \<Rightarrow> bool list list \<Rightarrow> rgb list list" where
  "whiten_where img m = arr_map2 (\<lambda>p c. if c then white else p) img m"

subsection \<open>generate\_frame: the raster\<close>

text \<open>
  One definition for each array of the source, under its name. \<open>shaded\<close> is
  \<open>img_data\<close> after the checkerboard darkening, \<open>img_data\<close> is the array after the
  grid lines, as it is handed to PIL. A decimal literal of the source is the float64
  nearest to it.
\<close>

definition lon_offset :: "int \<Rightarrow> int \<Rightarrow> real" where
  "lon_offset frame_num total_frames =
     fl (fl (fl (of_int frame_num / of_int total_frames) * 2) * np_pi)"

definition lon :: "nat \<Rightarrow> nat \<Rightarrow> real list list" where
  "lon width height =
     fst (meshgrid (linspace (- np_pi) np_pi width)
            (linspace (fl (np_pi / 2)) (fl (- np_pi / 2)) height))"

definition lat :: "nat \<Rightarrow> nat \<Rightarrow> real list list" where
  "lat width height =
     snd (meshgrid (linspace (- np_pi) np_pi width)
            (linspace (fl (np_pi / 2)) (fl (- np_pi / 2)) height))"

definition wrap_lon :: "real \<Rightarrow> real \<Rightarrow> real" where
  "wrap_lon off l = fl (py_mod (fl (fl (l + off) + np_pi)) (fl (2 * np_pi)) - np_pi)"

definition lon_moved :: "int \<Rightarrow> int \<Rightarrow> nat \<Rightarrow> nat \<Rightarrow> real list list" where
  "lon_moved frame_num total_frames width height =
     arr_map (wrap_lon (lon_offset frame_num total_frames)) (lon width height)"

definition grid_spacing :: real where
  "grid_spacing = deg2rad 30"

definition on_line :: "real \<Rightarrow> bool" where
  "on_line v = (\<bar>py_mod v grid_spacing\<bar> < fl 0.015)"

definition lon_grid :: "int \<Rightarrow> int \<Rightarrow> nat \<Rightarrow> nat \<Rightarrow> bool list list" where
  "lon_grid frame_num total_frames width height =
     arr_map on_line (lon_moved frame_num total_frames width height)"

definition lat_grid :: "nat \<Rightarrow> nat \<Rightarrow> bool list list" where
  "lat_grid width height = arr_map on_line (lat width height)"

definition same_parity :: "real \<Rightarrow> real \<Rightarrow> real \<Rightarrow> bool" where
  "same_parity spacing a b =
     (py_mod (py_floordiv a spacing) 2 = py_mod (py_floordiv b spacing) 2)"

definition checker :: "int \<Rightarrow> int \<Rightarrow> nat \<Rightarrow> nat \<Rightarrow> bool list list" where
  "checker frame_num total_frames width height =
     arr_map2 (same_parity grid_spacing)
       (lon_moved frame_num total_frames width height) (lat width height)"

definition red_value :: "real \<Rightarrow> real" where
  "red_value v = fl (fl (fl (fl (v + np_pi) / fl (2 * np_pi)) * 150) + 50)"

definition green_value :: "real \<Rightarrow> real" where
  "green_value v = fl (fl (fl (fl (v + fl (np_pi / 2)) / np_pi) * 150) + 50)"

definition base_colors :: "int \<Rightarrow> int \<Rightarrow> nat \<Rightarrow> nat \<Rightarrow> rgb list list" where
  "base_colors frame_num total_frames width height =
     set_blue
       (set_green
         (set_red (zeros height width)
            (arr_map (\<lambda>v. astype_uint8 (red_value v))
               (lon_moved frame_num total_frames width height)))
         (arr_map (\<lambda>v. astype_uint8 (green_value v)) (lat width height)))
       100"

definition shaded :: "int \<Rightarrow> int \<Rightarrow> nat \<Rightarrow> nat \<Rightarrow> rgb list list" where
  "shaded frame_num total_frames width height =
     darken_where (fl 0.7) (base_colors frame_num total_frames width height)
       (checker frame_num total_frames width height)"

definition grid_mask :: "int \<Rightarrow> int \<Rightarrow> nat \<Rightarrow> nat \<Rightarrow> bool list list" where
  "grid_mask frame_num total_frames width height =
     arr_map2 (\<or>) (lon_grid frame_num total_frames width height) (lat_grid width height)"

definition img_data :: "int \<Rightarrow> int \<Rightarrow> nat \<Rightarrow> nat \<Rightarrow> rgb list list" where
  "img_data frame_num total_frames width height =
     whiten_where (shaded frame_num total_frames width height)
       (grid_mask frame_num total_frames width height)"

subsection \<open>generate\_true\_equirectangular: the raster\<close>

text \<open>
  The numpy part of the function, up to the assignment of the white grid lines. The
  labels, the pole lines and the file write come after it and are not modelled.
\<close>

definition true_grid_spacing :: real where
  "true_grid_spacing = deg2rad 15"

definition true_on_line :: "real \<Rightarrow> bool" where
  "true_on_line v =
     (\<bar>py_mod v true_grid_spacing\<bar> < fl 0.02 \<or>
      \<bar>fl (py_mod (fl (v + fl (true_grid_spacing / 2))) true_grid_spacing
            - fl (true_grid_spacing / 2))\<bar> < fl 0.02)"

definition true_lon_grid :: "nat \<Rightarrow> nat \<Rightarrow> bool list list" where
  "true_lon_grid width height = arr_map true_on_line (lon width height)"

definition true_lat_grid :: "nat \<Rightarrow> nat \<Rightarrow> bool list list" where
  "true_lat_grid width height = arr_map true_on_line (lat width height)"

definition true_checker :: "nat \<Rightarrow> nat \<Rightarrow> bool list list" where
  "true_checker width height =
     arr_map2 (same_parity true_grid_spacing) (lon width height) (lat width height)"

definition true_red_value :: "real \<Rightarrow> real" where
  "true_red_value v = fl (fl (fl (v + np_pi) / fl (2 * np_pi)) * 255)"

definition true_green_value :: "real \<Rightarrow> real" where
  "true_green_value v = fl (fl (fl (v + fl (np_pi / 2)) / np_pi) * 255)"

definition true_base_colors :: "nat \<Rightarrow> nat \<Rightarrow> rgb list list" where
  "true_base_colors width height =
     set_blue
       (set_green
         (set_red (zeros height width)
            (arr_map (\<lambda>v. astype_uint8 (true_red_value v)) (lon width height)))
         (arr_map (\<lambda>v. astype_uint8 (true_green_value v)) (lat width height)))
       150"

definition true_shaded :: "nat \<Rightarrow> nat \<Rightarrow> rgb list list" where
  "true_shaded width height =
     darken_where (fl 0.8) (true_base_colors width height) (true_checker width height)"

definition true_grid_mask :: "nat \<Rightarrow> nat \<Rightarrow> bool list list" where
  "true_grid_mask width height =
     arr_map2 (\<or>) (true_lon_grid width height) (true_lat_grid width height)"

definition true_img_data :: "nat \<Rightarrow> nat \<Rightarrow> rgb list list" where
  "true_img_data width height =
     whiten_where (true_shaded width height) (true_grid_mask width height)"

subsection \<open>generate\_frame: fonts, overlays and the returned image\<close>

text \<open>
  What the renderer reads from its surroundings: whether a path exists
  (\<^verbatim>\<open>os.path.exists\<close>) and whether \<^verbatim>\<open>ImageFont.truetype(path, size)\<close> succeeds.
\<close>

record env =
  path_exists :: "string \<Rightarrow> bool"
  truetype_loads :: "string \<Rightarrow> nat \<Rightarrow> bool"

datatype font = TrueType string nat | DefaultFont

definition helvetica :: string where
  "helvetica = ''/System/Library/Fonts/Helvetica.ttc''"

definition arial :: string where
  "arial = ''/System/Library/Fonts/Supplemental/Arial.ttf''"

text \<open>
  The \<^verbatim>\<open>try\<close> block: both fonts come from one path; if either load raises, the bare
  \<^verbatim>\<open>except\<close> replaces both by the default font. The result is (large, small).
\<close>

definition load_fonts :: "env \<Rightarrow> font \<times> font" where
  "load_fonts e =
     (let font_path = (if \<not> path_exists e helvetica then arial else helvetica) in
      if truetype_loads e font_path 60 \<and> truetype_loads e font_path 30
      then (TrueType font_path 60, TrueType font_path 30)
      else (DefaultFont, DefaultFont))"

text \<open>
  The calls made on the \<^verbatim>\<open>ImageDraw\<close> object: position, text, fill, font and anchor
  of \<^verbatim>\<open>draw.text\<close>; bounding box, fill and outline of \<^verbatim>\<open>draw.ellipse\<close>.
\<close>

datatype draw_cmd =
    DrawText "int \<times> int" string "nat list" font "string option"
  | DrawEllipse "int list" "nat list" "nat list"

text \<open>
  PIL's rasteriser is outside the source: a painter gives, for a drawing call and a pixel
  position \<open>(x, y)\<close>, the pixel's new value from its old one. Drawing writes into the
  existing buffer.
\<close>

type_synonym painter = "draw_cmd \<Rightarrow> nat \<Rightarrow> nat \<Rightarrow> rgb \<Rightarrow> rgb"

definition draw :: "painter \<Rightarrow> rgb list list \<Rightarrow> draw_cmd \<Rightarrow> rgb list list" where
  "draw pil img cmd =
     map (\<lambda>(y, row). map (\<lambda>(x, p). pil cmd x y p) (enumerate 0 row)) (enumerate 0 img)"

text \<open>\<^verbatim>\<open>range(start, stop, step)\<close> for a positive step.\<close>

definition py_range :: "int \<Rightarrow> int \<Rightarrow> int \<Rightarrow> int list" where
  "py_range start stop step =
     map (\<lambda>k. start + step * int k) [0..<nat ((stop - start + step - 1) div step)]"

definition digit_char :: "nat \<Rightarrow> char" where
  "digit_char d = char_of (of_char (CHR ''0'') + d)"

fun show_nat :: "nat \<Rightarrow> string" where
  "show_nat n = (if n < 10 then [digit_char n] else show_nat (n div 10) @ [digit_char (n mod 10)])"

declare show_nat.simps [simp del]

definition show_int :: "int \<Rightarrow> string" where
  "show_int i = (if i < 0 then ''-'' @ show_nat (nat (- i)) else show_nat (nat i))"

text \<open>The format specification \<^verbatim>\<open>:.2f\<close>.\<close>

definition format_2f :: "real \<Rightarrow> string" where
  "format_2f x =
     (let q = nat (round_half_even (\<bar>x\<bar> * 100)) in
      (if x < 0 then ''-'' else []) @ show_nat (q div 100) @ ''.'' @
      [digit_char (q mod 100 div 10), digit_char (q mod 10)])"

definition degree_sign :: char where
  "degree_sign = CHR 0xB0"

definition grid_label :: "int \<Rightarrow> int \<Rightarrow> string" where
  "grid_label la_deg lo_deg =
     (if la_deg \<ge> 0
      then show_int la_deg @ [degree_sign] @ ''N, '' @ show_int lo_deg @ [degree_sign] @ ''E''
      else show_int (- la_deg) @ [degree_sign] @ ''S, '' @ show_int lo_deg @ [degree_sign] @ ''E'')"

definition label_cmds :: "font \<Rightarrow> int \<Rightarrow> int \<Rightarrow> int \<Rightarrow> int \<Rightarrow> draw_cmd list" where
  "label_cmds font_small frame_num total_frames width height =
     concat (map (\<lambda>lo_deg.
       (let lo_rad = deg2rad (of_int lo_deg);
            curr_lo = fl (py_mod (fl (fl (lo_rad - lon_offset frame_num total_frames) + np_pi))
                            (fl (2 * np_pi)) - np_pi);
            px = py_int (fl (fl (fl (curr_lo + np_pi) / fl (2 * np_pi)) * of_int width))
        in map (\<lambda>la_deg.
             (let py = py_int (fl (fl (fl (fl (np_pi / 2) - deg2rad (of_int la_deg)) / np_pi)
                                   * of_int height))
              in DrawText (px + 5, py + 5) (grid_label la_deg lo_deg) [255, 255, 255, 128]
                   font_small None))
             (py_range (- 60) 90 30)))
       (py_range (- 180) 180 45))"

text \<open>
  \<^verbatim>\<open>np.sin\<close> is the platform's sine on float64; its rounding is not fixed by the
  source, so it is a parameter.
\<close>

definition overlay_cmds ::
  "(real \<Rightarrow> real) \<Rightarrow> env \<Rightarrow> int \<Rightarrow> int \<Rightarrow> int \<Rightarrow> int \<Rightarrow> draw_cmd list"
where
  "overlay_cmds np_sin e frame_num total_frames width height =
     (let (font_large, font_small) = load_fonts e;
          ball_x = (frame_num * 10) mod width;
          ball_y = py_int (fl (fl (of_int height / 2) +
                     fl (np_sin (fl (fl (of_int frame_num) * fl 0.2)) * 200)))
      in label_cmds font_small frame_num total_frames width height @
         [DrawText (width div 2, 50) ''NORTH POLE'' [255, 255, 255] font_large (Some ''mt''),
          DrawText (width div 2, height - 100) ''SOUTH POLE'' [255, 255, 255] font_large (Some ''mb''),
          DrawText (50, height - 50)
            (''Frame: '' @ show_int frame_num @ '' | Time: '' @
             format_2f (fl (of_int frame_num / 30)) @ ''s'')
            [255, 255, 0] font_small None,
          DrawEllipse [ball_x - 30, ball_y - 30, ball_x + 30, ball_y + 30]
            [255, 0, 0] [255, 255, 255]])"

datatype py_error = ZeroDivisionError | ValueError

text \<open>
  The whole function. The arguments are Python integers. Exceptions in source order:
  the division by \<open>total_frames\<close> in the first statement; \<^verbatim>\<open>np.linspace\<close>
  rejecting a negative sample count; the integer modulo by \<open>width\<close> at the ball position.
\<close>

definition generate_frame ::
  "painter \<Rightarrow> (real \<Rightarrow> real) \<Rightarrow> env \<Rightarrow> int \<Rightarrow> int \<Rightarrow> int \<Rightarrow> int \<Rightarrow> py_error + rgb list list"
where
  "generate_frame pil np_sin e frame_num total_frames width height =
     (if total_frames = 0 then Inl ZeroDivisionError
      else if width < 0 \<or> height < 0 then Inl ValueError
      else if width = 0 then Inl ZeroDivisionError
      else Inr (foldl (draw pil)
                  (img_data frame_num total_frames (nat width) (nat height))
                  (overlay_cmds np_sin e frame_num total_frames width height)))"

text \<open>The fonts the renderer can end up with depend on the environment through this only.\<close>

definition font_availability :: "env \<Rightarrow> bool \<times> bool \<times> bool \<times> bool \<times> bool" where
  "font_availability e =
     (path_exists e helvetica,
      truetype_loads e helvetica 60, truetype_loads e helvetica 30,
      truetype_loads e arial 60, truetype_loads e arial 30)"

text \<open>An array of \<open>h\<close> rows with \<open>w\<close> entries each.\<close>

definition shape :: "'a list list \<Rightarrow> nat \<Rightarrow> nat \<Rightarrow> bool" where
  "shape a h w = (length a = h \<and> (\<forall>row\<in>set a. length row = w))"

subsection \<open>Concrete collaborators for the worked examples\<close>

definition demo_image :: "rgb list list" where
  "demo_image = [ [(10, 20, 30), (40, 50, 60)] ]"

definition demo_dets :: "detection list" where
  "demo_dets =
     [\<lparr>det_box = [0, 0, 1, 1], det_score = 0.9, det_label = ''cat''\<rparr>,
      \<lparr>det_box = [1, 0, 2, 1], det_score = 0.8, det_label = ''cat''\<rparr>]"


definition demo_seg :: "real list \<Rightarrow> mask" where
  "demo_seg b = (if b = [0, 0, 1, 1] then [ [True, False] ] else [ [False, True] ])"

definition demo_runtime :: "detection list \<Rightarrow> runtime" where
  "demo_runtime dets =
     \<lparr>b64decode = Inr, b64encode = (\<lambda>s. s),
      image_open = (\<lambda>bs. Inr demo_image),
      grounding_dino = (\<lambda>img p t. Inr dets),
      sam2_predict = (\<lambda>img b. Inr (demo_seg b)),
      png_encode = (\<lambda>im. concat (map (concat \<circ> map (\<lambda>(r, g, b, a). map (\<lambda>v. char_of (unat v)) [r, g, b, a])) im)),
      savefig = (\<lambda>img ms ds. ''overlay'')\<rparr>"

definition no_fonts :: env where
  "no_fonts = \<lparr>path_exists = (\<lambda>p. False), truetype_loads = (\<lambda>p n. False)\<rparr>"

definition no_fonts_after_save :: env where
  "no_fonts_after_save =
     \<lparr>path_exists = (\<lambda>p. p = ''temp_frames/frame_0000.png''), truetype_loads = (\<lambda>p n. False)\<rparr>"

text \<open>A painter that fills the bounding box of an ellipse with red and draws no text.\<close>

definition plain_painter :: painter where
  "plain_painter cmd x y p =
     (case cmd of
        DrawEllipse box fill outline \<Rightarrow>
          (if box ! 0 \<le> int x \<and> int x \<le> box ! 2 \<and> box ! 1 \<le> int y \<and> int y \<le> box ! 3
           then (255, 0, 0) else p)
      | DrawText pos s fill f a \<Rightarrow> p)"

text \<open>A sine for the worked examples: the correctly rounded one.\<close>

definition rounded_sin :: "real \<Rightarrow> real" where
  "rounded_sin x = fl (sin x)"


fun reply_body :: "response \<Rightarrow> jdict" where
  "reply_body (Reply d) = d"
| "reply_body (ReplyStatus d st) = d"

fun reply_status :: "response \<Rightarrow> nat option" where
  "reply_status (Reply d) = None"
| "reply_status (ReplyStatus d st) = Some st"


section \<open>Properties of the segmentation wrapper\<close>




lemma internal_zero:
  assumes "image_open rt bytes = Inr img"
    and "grounding_dino rt img (format_prompt s) thr = Inr []"
  shows "segment_objects_internal rt bytes (JStr s) thr viz tr0 =
           (Inr (base_result [] []), tr0 @ [CallInternal, RunDetector (format_prompt s)])"
  using assms by (simp add: segment_objects_internal_def Let_def)


text \<open>
  C8, as the code has it. A request body without the key \<open>prompt\<close> gets an error reply
  with status 400 and no model is invoked. The message is \<open>Missing 'prompt' field\<close> when
  the body has the key \<open>image_base64\<close>; the image key is checked first, so a body that
  lacks both keys gets \<open>Missing 'image_base64' field\<close>.
\<close>

theorem missing_prompt_reply:
  assumes "data ''prompt'' = None"
  shows "snd (segment rt data) = [] \<and>
         reply_status (fst (segment rt data)) = Some 400 \<and>
         reply_body (fst (segment rt data)) ''error'' =
           Some (JStr (if data ''image_base64'' = None then ''Missing 'image_base64' field''
                       else ''Missing 'prompt' field''))"
  using assms
  by (simp add: segment_def error_reply_def missing_field_def split: option.splits)

theorem missing_prompt_reply_witness:
  "snd (segment (demo_runtime demo_dets) [''image_base64'' \<mapsto> JStr ''aGk='']) = [] \<and>
   reply_status (fst (segment (demo_runtime demo_dets) [''image_base64'' \<mapsto> JStr ''aGk=''])) = Some 400 \<and>
   reply_body (fst (segment (demo_runtime demo_dets) [''image_base64'' \<mapsto> JStr ''aGk=''])) ''error'' =
     Some (JStr ''Missing 'prompt' field'')"
  using missing_prompt_reply [of "[''image_base64'' \<mapsto> JStr ''aGk='']" "demo_runtime demo_dets"]
  by simp

text \<open>
  C8 as stated fails on the empty request body: it lacks \<open>prompt\<close>, and the message is
  about \<open>image_base64\<close>.
\<close>

theorem missing_prompt_message_counterexample:
  "(Map.empty :: jdict) ''prompt'' = None \<and>
   reply_body (fst (segment (demo_runtime demo_dets) Map.empty)) ''error'' \<noteq>
     Some (JStr ''Missing 'prompt' field'')"
  by (simp add: segment_def error_reply_def missing_field_def)

text \<open>
  C9. When the image decodes and the detector returns no detection, the endpoint replies
  with the result dict alone; it has \<open>num_objects\<close> 0 and neither the key
  \<open>masked_image_base64\<close> nor the key \<open>visualization_base64\<close>.
\<close>

theorem zero_objects_omit_images:
  assumes "data ''image_base64'' = Some (JStr b64)"
    and "data ''prompt'' = Some (JStr s)"
    and "b64decode rt b64 = Inr bytes"
    and "image_open rt bytes = Inr img"
    and "grounding_dino rt img (format_prompt s)
           (case data ''threshold'' of None \<Rightarrow> JFloat 0.3 | Some t \<Rightarrow> t) = Inr []"
  shows "\<exists>res. fst (segment rt data) = Reply res \<and>
           res ''num_objects'' = Some (JInt 0) \<and>
           res ''masked_image_base64'' = None \<and>
           res ''visualization_base64'' = None"
proof -
  have "fst (segment rt data) = Reply (base_result [] [])"
    using assms(1,2,3)
    by (simp add: segment_def decode_image_field_def internal_zero [OF assms(4,5)])
  then show ?thesis
    by (simp add: base_result_def)
qed

theorem zero_objects_omit_images_witness:
  "\<exists>res. fst (segment (demo_runtime [])
                [''image_base64'' \<mapsto> JStr ''aGk='', ''prompt'' \<mapsto> JStr ''Dog'']) = Reply res \<and>
      res ''num_objects'' = Some (JInt 0) \<and>
      res ''masked_image_base64'' = None \<and>
      res ''visualization_base64'' = None"
  by (rule zero_objects_omit_images [where ?b64.0 = "''aGk=''" and s = "''Dog''"
        and bytes = "''aGk=''" and img = demo_image])
     (simp_all add: demo_runtime_def)




section \<open>Properties of the float64 model\<close>

lemma round_half_even_eqI:
  assumes "\<bar>y - of_int m\<bar> < 1 / 2 \<or> (\<bar>y - of_int m\<bar> = 1 / 2 \<and> even m)"
  shows "round_half_even y = m"
proof -
  let ?n = "\<lfloor>y\<rfloor>"
  have fl: "of_int ?n \<le> y" "y < of_int ?n + 1" by linarith+
  from assms show ?thesis
  proof
    assume a: "\<bar>y - of_int m\<bar> < 1 / 2"
    then have "m = ?n \<or> m = ?n + 1" using fl by linarith
    then show ?thesis
    proof
      assume "m = ?n"
      with a have "y - of_int ?n < 1 / 2" by linarith
      with \<open>m = ?n\<close> show ?thesis by (simp add: round_half_even_def Let_def)
    next
      assume m: "m = ?n + 1"
      with a have "1 / 2 < y - of_int ?n" by (simp; linarith?)
      with m show ?thesis by (simp add: round_half_even_def Let_def)
    qed
  next
    assume a: "\<bar>y - of_int m\<bar> = 1 / 2 \<and> even m"
    then have "m = ?n \<or> m = ?n + 1" using fl by linarith
    then show ?thesis
    proof
      assume "m = ?n"
      with a have "y - of_int ?n = 1 / 2" "even ?n" by auto
      with \<open>m = ?n\<close> show ?thesis by (simp add: round_half_even_def Let_def)
    next
      assume m: "m = ?n + 1"
      with a have "y - of_int ?n = 1 / 2" "odd ?n" by auto
      with m show ?thesis by (simp add: round_half_even_def Let_def)
    qed
  qed
qed


lemma round_half_even_of_int [simp]: "round_half_even (of_int k) = k"
  by (rule round_half_even_eqI) simp


lemma fl_zero [simp]: "fl 0 = 0"
  by (simp add: fl_def)

lemma pow2_powr: "pow2 e = 2 powr (of_int e)"
  by (simp add: pow2_def powr_int)

lemma pow2_pos [simp]: "0 < pow2 e"
  by (simp add: pow2_powr)

lemma pow2_nonneg [simp]: "0 \<le> pow2 e"
  by (simp add: pow2_powr)

lemma pow2_neq0 [simp]: "pow2 e \<noteq> 0"
  using pow2_pos [of e] by linarith

lemma pow2_add: "pow2 (a + b) = pow2 a * pow2 b"
  by (simp add: pow2_powr powr_add)

lemma pow2_nat: "pow2 (int n) = 2 ^ n"
  by (simp add: pow2_def)

lemma pow2_neg_nat: "pow2 (- int n) = 1 / 2 ^ n"
  by (simp add: pow2_powr powr_minus powr_realpow divide_simps)

lemma pow2_numeral: "pow2 (numeral k) = 2 ^ numeral k"
  by (simp add: pow2_def)

lemma log2_floor_eq:
  assumes "2 ^ 52 \<le> \<bar>x\<bar> * 2 ^ n" "\<bar>x\<bar> * 2 ^ n < 2 ^ 53"
  shows "\<lfloor>log 2 \<bar>x\<bar>\<rfloor> = 52 - int n"
proof -
  have pos: "0 < \<bar>x\<bar>" using assms(1) by (cases "x = 0") auto
  have a: "pow2 (52 - int n) * 2 ^ n = 2 ^ 52"
    using pow2_add [of "52 - int n" "int n"] by (simp add: pow2_nat pow2_numeral)
  have b: "pow2 (52 - int n + 1) * 2 ^ n = 2 ^ 53"
    using pow2_add [of "52 - int n + 1" "int n"] by (simp add: pow2_nat pow2_numeral)
  have "pow2 (52 - int n) * 2 ^ n \<le> \<bar>x\<bar> * 2 ^ n" using assms(1) a by simp
  then have lo: "pow2 (52 - int n) \<le> \<bar>x\<bar>" by simp
  have "\<bar>x\<bar> * 2 ^ n < pow2 (52 - int n + 1) * 2 ^ n" using assms(2) b by simp
  then have hi: "\<bar>x\<bar> < pow2 (52 - int n + 1)" by simp
  show ?thesis
    using lo hi unfolding pow2_powr
    by (subst floor_log_eq_powr_iff [OF pos]) simp_all
qed

lemma fl_eqI:
  assumes "2 ^ 52 \<le> \<bar>x\<bar> * 2 ^ n" "\<bar>x\<bar> * 2 ^ n < 2 ^ 53"
    and "\<bar>x * 2 ^ n - of_int m\<bar> < 1 / 2 \<or> (\<bar>x * 2 ^ n - of_int m\<bar> = 1 / 2 \<and> even m)"
    and "y * 2 ^ n = of_int m"
  shows "fl x = y"
proof -
  have nz: "x \<noteq> 0" using assms(1) by auto
  have e: "\<lfloor>log 2 \<bar>x\<bar>\<rfloor> = 52 - int n" by (rule log2_floor_eq) fact+
  have p1: "pow2 (52 - (52 - int n)) = 2 ^ n"
    by (simp add: pow2_nat)
  have p2: "pow2 (52 - int n - 52) = 1 / 2 ^ n"
    by (simp add: pow2_neg_nat)
  have r: "round_half_even (x * 2 ^ n) = m" by (rule round_half_even_eqI) fact
  have "fl x = of_int m * (1 / 2 ^ n)"
    using nz unfolding fl_def Let_def e p1 p2 r by simp
  also have "\<dots> = y" using assms(4) by (simp add: field_simps)
  finally show ?thesis .
qed

lemma fl_one [simp]: "fl 1 = 1"
  by (rule fl_eqI [where n = 52 and m = "2 ^ 52"]) simp_all

lemma fl_two [simp]: "fl 2 = 2"
  by (rule fl_eqI [where n = 51 and m = "2 ^ 52"]) simp_all


lemma fl_scaled:
  assumes "x \<noteq> 0"
  shows "fl x * pow2 (52 - \<lfloor>log 2 \<bar>x\<bar>\<rfloor>) =
           of_int (round_half_even (x * pow2 (52 - \<lfloor>log 2 \<bar>x\<bar>\<rfloor>)))"
proof -
  let ?e = "\<lfloor>log 2 \<bar>x\<bar>\<rfloor>"
  have "pow2 (?e - 52) * pow2 (52 - ?e) = 1"
    using pow2_add [of "?e - 52" "52 - ?e"] by (simp add: pow2_def)
  then show ?thesis
    using assms by (simp add: fl_def Let_def mult.assoc)
qed



lemma fl_of_int: "\<exists>k::int. fl (of_int j) = of_int k"
proof (cases "j = 0")
  case True
  then show ?thesis by (intro exI [of _ 0]) simp
next
  case False
  let ?x = "of_int j :: real"
  let ?e = "\<lfloor>log 2 \<bar>?x\<bar>\<rfloor>"
  have nz: "?x \<noteq> 0" using False by simp
  show ?thesis
  proof (cases "?e \<le> 52")
    case True
    then have p: "pow2 (52 - ?e) = of_int (2 ^ nat (52 - ?e))"
      by (simp add: pow2_def)
    have "?x * pow2 (52 - ?e) = of_int (j * 2 ^ nat (52 - ?e))"
      unfolding p by simp
    then have "fl ?x * pow2 (52 - ?e) = ?x * pow2 (52 - ?e)"
      unfolding fl_scaled [OF nz] by (simp only: round_half_even_of_int)
    then have "fl ?x = ?x" by simp
    then show ?thesis by blast
  next
    case False
    then have p: "pow2 (?e - 52) = of_int (2 ^ nat (?e - 52))"
      by (simp add: pow2_def)
    have "fl ?x = of_int (round_half_even (?x * pow2 (52 - ?e)) * 2 ^ nat (?e - 52))"
      using nz unfolding fl_def Let_def p by simp
    then show ?thesis by blast
  qed
qed

lemma py_floordiv_integral: "\<exists>k::int. py_floordiv a b = of_int k"
proof -
  have 1: "\<exists>k::int. fl (of_int j + 1) = of_int k" for j :: int
    using fl_of_int [of "j + 1"] by simp
  have 2: "\<exists>k::int. (0::real) = of_int k" by (rule exI [of _ 0]) simp
  show ?thesis
    unfolding py_floordiv_def npy_divmod_def Let_def fst_conv
    using 1 2 by (auto simp del: of_int_add)
qed

lemma c_fmod_of_int_2:
  "c_fmod (of_int a) 2 = (if 0 \<le> a then of_int (a mod 2) else - of_int ((- a) mod 2))"
proof (cases "0 \<le> a")
  case True
  have "\<lfloor>(of_int a :: real) / 2\<rfloor> = a div 2"
    using floor_divide_of_int_eq [of a 2, where ?'a = real] by simp
  moreover have "a - 2 * (a div 2) = a mod 2" by (simp add: minus_mult_div_eq_mod)
  then have "(of_int a :: real) - 2 * of_int (a div 2) = of_int (a mod 2)"
    by (metis of_int_diff of_int_mult of_int_numeral)
  ultimately show ?thesis
    using True by (simp add: c_fmod_def py_int_def)
next
  case False
  have "\<lfloor>(of_int (- a) :: real) / 2\<rfloor> = (- a) div 2"
    using floor_divide_of_int_eq [of "- a" 2, where ?'a = real] by simp
  then have c: "\<lceil>(of_int a :: real) / 2\<rceil> = - ((- a) div 2)"
    by (simp add: ceiling_def)
  have "(- a) - 2 * ((- a) div 2) = (- a) mod 2" by (simp add: minus_mult_div_eq_mod)
  then have "a + 2 * ((- a) div 2) = - ((- a) mod 2)" by linarith
  then have "(of_int a :: real) + 2 * of_int ((- a) div 2) = - of_int ((- a) mod 2)"
    by (metis of_int_add of_int_minus of_int_mult of_int_numeral)
  then show ?thesis
    using False c by (simp add: c_fmod_def py_int_def)
qed

lemma py_mod_of_int_2: "py_mod (of_int a) 2 = of_int (a mod 2)"
proof (cases "0 \<le> a")
  case True
  have "0 \<le> a mod 2" by simp
  then show ?thesis
    using True by (simp add: py_mod_def npy_divmod_def Let_def c_fmod_of_int_2)
next
  case False
  show ?thesis
  proof (cases "even a")
    case True
    then have "(- a) mod 2 = 0" "a mod 2 = 0" by presburger+
    then show ?thesis
      using False by (simp add: py_mod_def npy_divmod_def Let_def c_fmod_of_int_2)
  next
    case odd: False
    then have "(- a) mod 2 = 1" "a mod 2 = 1" by presburger+
    then show ?thesis
      using False by (simp add: py_mod_def npy_divmod_def Let_def c_fmod_of_int_2)
  qed
qed



section \<open>Properties of the renderer\<close>

subsection \<open>Arrays\<close>

lemma shapeD: "shape a h w \<Longrightarrow> r < h \<Longrightarrow> length a = h \<and> length (a ! r) = w"
  by (simp add: shape_def)

lemma length_linspace [simp]: "length (linspace a b n) = n"
  by (simp add: linspace_def)

lemma shape_arr_map: "shape a h w \<Longrightarrow> shape (arr_map f a) h w"
  by (auto simp: shape_def arr_map_def)

lemma shape_arr_map2: "shape a h w \<Longrightarrow> shape b h w \<Longrightarrow> shape (arr_map2 f a b) h w"
  by (auto simp: shape_def arr_map2_def set_zip)

lemma nth_arr_map: "shape a h w \<Longrightarrow> r < h \<Longrightarrow> c < w \<Longrightarrow> arr_map f a ! r ! c = f (a ! r ! c)"
  by (simp add: shape_def arr_map_def)

lemma nth_arr_map2:
  "shape a h w \<Longrightarrow> shape b h w \<Longrightarrow> r < h \<Longrightarrow> c < w \<Longrightarrow>
   arr_map2 f a b ! r ! c = f (a ! r ! c) (b ! r ! c)"
  by (simp add: shape_def arr_map2_def)

lemma shape_zeros: "shape (zeros h w) h w"
  by (simp add: shape_def zeros_def)

lemma nth_zeros: "r < h \<Longrightarrow> c < w \<Longrightarrow> zeros h w ! r ! c = (0, 0, 0)"
  by (simp add: zeros_def)

lemma shape_lon: "shape (lon w h) h w"
  by (auto simp: shape_def lon_def meshgrid_def)

lemma shape_lat: "shape (lat w h) h w"
  by (auto simp: shape_def lat_def meshgrid_def)

lemma nth_lon: "r < h \<Longrightarrow> c < w \<Longrightarrow> lon w h ! r ! c = linspace (- np_pi) np_pi w ! c"
  by (simp add: lon_def meshgrid_def)

lemma nth_lat: "r < h \<Longrightarrow> c < w \<Longrightarrow> lat w h ! r ! c = linspace (fl (np_pi / 2)) (fl (- np_pi / 2)) h ! r"
  by (simp add: lat_def meshgrid_def)

lemma shape_lon_moved: "shape (lon_moved f T w h) h w"
  by (simp add: lon_moved_def shape_arr_map shape_lon)

lemma shape_checker: "shape (checker f T w h) h w"
  by (simp add: checker_def shape_arr_map2 shape_lon_moved shape_lat)

lemma shape_grid_mask: "shape (grid_mask f T w h) h w"
  by (simp add: grid_mask_def lon_grid_def lat_grid_def shape_arr_map2 shape_arr_map
        shape_lon_moved shape_lat)

lemma shape_base_colors: "shape (base_colors f T w h) h w"
  by (simp add: base_colors_def set_blue_def set_green_def set_red_def shape_arr_map2
        shape_arr_map shape_zeros shape_lon_moved shape_lat)

lemma shape_shaded: "shape (shaded f T w h) h w"
  by (simp add: shaded_def darken_where_def shape_arr_map2 shape_base_colors shape_checker)

lemma shape_img_data: "shape (img_data f T w h) h w"
  by (simp add: img_data_def whiten_where_def shape_arr_map2 shape_shaded shape_grid_mask)

lemma shape_draw: "shape img h w \<Longrightarrow> shape (draw pil img cmd) h w"
  by (auto simp: shape_def draw_def in_set_enumerate_eq)

lemma shape_foldl_draw: "shape img h w \<Longrightarrow> shape (foldl (draw pil) img cmds) h w"
  by (induction cmds arbitrary: img) (simp_all add: shape_draw)

lemma nth_base_colors:
  assumes "r < h" "c < w"
  shows "base_colors f T w h ! r ! c =
           (astype_uint8 (red_value (lon_moved f T w h ! r ! c)),
            astype_uint8 (green_value (lat w h ! r ! c)), 100)"
  using assms
  by (simp add: base_colors_def set_blue_def set_green_def set_red_def
        nth_arr_map [OF _ assms] nth_arr_map2 [OF _ _ assms]
        shape_arr_map2 shape_arr_map shape_zeros shape_lon_moved shape_lat nth_zeros)

lemma nth_lon_moved:
  "r < h \<Longrightarrow> c < w \<Longrightarrow>
   lon_moved f T w h ! r ! c = wrap_lon (lon_offset f T) (linspace (- np_pi) np_pi w ! c)"
  by (simp add: lon_moved_def nth_arr_map [OF shape_lon] nth_lon)

lemma nth_checker:
  assumes "r < h" "c < w"
  shows "checker f T w h ! r ! c =
           same_parity grid_spacing (lon_moved f T w h ! r ! c) (lat w h ! r ! c)"
  by (simp add: checker_def nth_arr_map2 [OF shape_lon_moved shape_lat assms])

lemma nth_shaded:
  assumes "r < h" "c < w"
  shows "shaded f T w h ! r ! c =
           (if checker f T w h ! r ! c then scale_pixel (fl 0.7) (base_colors f T w h ! r ! c)
            else base_colors f T w h ! r ! c)"
  by (simp add: shaded_def darken_where_def
        nth_arr_map2 [OF shape_base_colors shape_checker assms])

lemma nth_grid_mask:
  assumes "r < h" "c < w"
  shows "grid_mask f T w h ! r ! c =
           (on_line (lon_moved f T w h ! r ! c) \<or> on_line (lat w h ! r ! c))"
proof -
  have 1: "shape (lon_grid f T w h) h w"
    by (simp add: lon_grid_def shape_arr_map shape_lon_moved)
  have 2: "shape (lat_grid w h) h w"
    by (simp add: lat_grid_def shape_arr_map shape_lat)
  have "grid_mask f T w h ! r ! c = (lon_grid f T w h ! r ! c \<or> lat_grid w h ! r ! c)"
    by (simp add: grid_mask_def nth_arr_map2 [OF 1 2 assms])
  then show ?thesis
    by (simp add: lon_grid_def lat_grid_def
          nth_arr_map [OF shape_lon_moved assms] nth_arr_map [OF shape_lat assms])
qed

lemma nth_img_data:
  assumes "r < h" "c < w"
  shows "img_data f T w h ! r ! c =
           (if grid_mask f T w h ! r ! c then white else shaded f T w h ! r ! c)"
  by (simp add: img_data_def whiten_where_def
        nth_arr_map2 [OF shape_shaded shape_grid_mask assms])

lemma nth_linspace:
  "i < n \<Longrightarrow> 1 < n \<Longrightarrow>
   linspace a b n ! i =
     (if i = n - 1 then b else fl (fl (real i * fl (fl (b - a) / real (n - 1))) + a))"
  by (simp add: linspace_def)

lemma shape_true_grid_mask: "shape (true_grid_mask w h) h w"
  by (simp add: true_grid_mask_def true_lon_grid_def true_lat_grid_def shape_arr_map2
        shape_arr_map shape_lon shape_lat)

lemma shape_true_checker: "shape (true_checker w h) h w"
  by (simp add: true_checker_def shape_arr_map2 shape_lon shape_lat)

lemma shape_true_base_colors: "shape (true_base_colors w h) h w"
  by (simp add: true_base_colors_def set_blue_def set_green_def set_red_def shape_arr_map2
        shape_arr_map shape_zeros shape_lon shape_lat)

lemma shape_true_shaded: "shape (true_shaded w h) h w"
  by (simp add: true_shaded_def darken_where_def shape_arr_map2 shape_true_base_colors
        shape_true_checker)

lemma nth_true_img_data:
  assumes "r < h" "c < w"
  shows "true_img_data w h ! r ! c =
           (if true_grid_mask w h ! r ! c then white else true_shaded w h ! r ! c)"
  by (simp add: true_img_data_def whiten_where_def
        nth_arr_map2 [OF shape_true_shaded shape_true_grid_mask assms])

lemma nth_true_shaded:
  assumes "r < h" "c < w"
  shows "true_shaded w h ! r ! c =
           (if true_checker w h ! r ! c then scale_pixel (fl 0.8) (true_base_colors w h ! r ! c)
            else true_base_colors w h ! r ! c)"
  by (simp add: true_shaded_def darken_where_def
        nth_arr_map2 [OF shape_true_base_colors shape_true_checker assms])

lemma nth_true_checker:
  assumes "r < h" "c < w"
  shows "true_checker w h ! r ! c =
           same_parity true_grid_spacing (lon w h ! r ! c) (lat w h ! r ! c)"
  by (simp add: true_checker_def nth_arr_map2 [OF shape_lon shape_lat assms])

lemma nth_true_grid_mask:
  assumes "r < h" "c < w"
  shows "true_grid_mask w h ! r ! c =
           (true_on_line (lon w h ! r ! c) \<or> true_on_line (lat w h ! r ! c))"
proof -
  have 1: "shape (true_lon_grid w h) h w"
    by (simp add: true_lon_grid_def shape_arr_map shape_lon)
  have 2: "shape (true_lat_grid w h) h w"
    by (simp add: true_lat_grid_def shape_arr_map shape_lat)
  have "true_grid_mask w h ! r ! c = (true_lon_grid w h ! r ! c \<or> true_lat_grid w h ! r ! c)"
    by (simp add: true_grid_mask_def nth_arr_map2 [OF 1 2 assms])
  then show ?thesis
    by (simp add: true_lon_grid_def true_lat_grid_def
          nth_arr_map [OF shape_lon assms] nth_arr_map [OF shape_lat assms])
qed

lemma nth_true_base_colors:
  assumes "r < h" "c < w"
  shows "true_base_colors w h ! r ! c =
           (astype_uint8 (true_red_value (lon w h ! r ! c)),
            astype_uint8 (true_green_value (lat w h ! r ! c)), 150)"
  using assms
  by (simp add: true_base_colors_def set_blue_def set_green_def set_red_def
        nth_arr_map [OF _ assms] nth_arr_map2 [OF _ _ assms]
        shape_arr_map2 shape_arr_map shape_zeros shape_lon shape_lat nth_zeros)

lemma load_fonts_cong: "font_availability e1 = font_availability e2 \<Longrightarrow> load_fonts e1 = load_fonts e2"
  by (simp add: font_availability_def load_fonts_def Let_def)

subsection \<open>float64 roundings at the example pixels\<close>

text \<open>
  Every rounding that occurs in the evaluation of the example pixels below, each
  checked against the definition of \<open>fl\<close>: the argument lies in
  \<open>[2\<^sup>5\<^sup>2, 2\<^sup>5\<^sup>3) / 2\<^sup>n\<close> and the result is the nearest multiple of \<open>2\<^sup>-\<^sup>n\<close>.
\<close>

lemma fl_step_001 [simp]: "fl (11519683686741 / 9007199254740992) = 11519683686741 / 9007199254740992"
  by (rule fl_eqI [where n = 62 and m = "5898078047611392"]) simp_all

lemma fl_step_002 [simp]: "fl (- (64510228645761 / 36028797018963968)) = - (64510228645761 / 36028797018963968)"
  by (rule fl_eqI [where n = 62 and m = "- 8257309266657408"]) simp_all

lemma fl_step_003 [simp]: "fl (884279719003555 / 288089638663356416) = 7077693657134463 / 2305843009213693952"
  by (rule fl_eqI [where n = 61 and m = "7077693657134463"]) simp_all

lemma fl_step_004 [simp]: "fl (- (884279719003555 / 287948901175001088)) = - (7081152940446845 / 2305843009213693952)"
  by (rule fl_eqI [where n = 61 and m = "- 7081152940446845"]) simp_all

lemma fl_step_005 [simp]: "fl (3 / 200) = 1080863910568919 / 72057594037927936"
  by (rule fl_eqI [where n = 59 and m = "8646911284551352"]) simp_all

lemma fl_step_006 [simp]: "fl (176855943800711 / 10133099161583616) = 5030569068109113 / 288230376151711744"
  by (rule fl_eqI [where n = 58 and m = "5030569068109113"]) simp_all

lemma fl_step_007 [simp]: "fl (1 / 50) = 5764607523034235 / 288230376151711744"
  by (rule fl_eqI [where n = 58 and m = "5764607523034235"]) simp_all

lemma fl_step_008 [simp]: "fl (587503868023857 / 7074237752028440) = 5984265259622743 / 72057594037927936"
  by (rule fl_eqI [where n = 56 and m = "5984265259622743"]) simp_all

lemma fl_step_009 [simp]: "fl (1181919546259759 / 14148475504056880) = 6019466819973463 / 72057594037927936"
  by (rule fl_eqI [where n = 56 and m = "6019466819973463"]) simp_all

lemma fl_step_010 [simp]: "fl (1 / 8) = 1 / 8"
  by (rule fl_eqI [where n = 55 and m = "4503599627370496"]) simp_all

lemma fl_step_011 [simp]: "fl (1162912068176633 / 9007199254740992) = 1162912068176633 / 9007199254740992"
  by (rule fl_eqI [where n = 55 and m = "4651648272706532"]) simp_all

lemma fl_step_012 [simp]: "fl (4716158501352293 / 36028797018963968) = 4716158501352293 / 36028797018963968"
  by (rule fl_eqI [where n = 55 and m = "4716158501352293"]) simp_all

lemma fl_step_013 [simp]: "fl (4683903387029415 / 18014398509481984) = 4683903387029415 / 18014398509481984"
  by (rule fl_eqI [where n = 54 and m = "4683903387029415"]) simp_all

lemma fl_step_014 [simp]: "fl (- (601897999937981825 / 2305843009213693952)) = - (4702328124515483 / 18014398509481984)"
  by (rule fl_eqI [where n = 54 and m = "- 4702328124515483"]) simp_all

lemma fl_step_015 [simp]: "fl (2358079250676145 / 9007199254740992) = 2358079250676145 / 9007199254740992"
  by (rule fl_eqI [where n = 54 and m = "4716158501352290"]) simp_all

lemma fl_step_016 [simp]: "fl (- (884279719003555 / 3377699720527872)) = - (4716158501352293 / 18014398509481984)"
  by (rule fl_eqI [where n = 54 and m = "- 4716158501352293"]) simp_all

lemma fl_step_017 [simp]: "fl (884279719003555 / 3377699720527872) = 4716158501352293 / 18014398509481984"
  by (rule fl_eqI [where n = 54 and m = "4716158501352293"]) simp_all

lemma fl_step_018 [simp]: "fl (75458536021636695 / 288230376151711744) = 4716158501352293 / 18014398509481984"
  by (rule fl_eqI [where n = 54 and m = "4716158501352293"]) simp_all

lemma fl_step_019 [simp]: "fl (73869971641235 / 281474976710656) = 73869971641235 / 281474976710656"
  by (rule fl_eqI [where n = 54 and m = "4727678185039040"]) simp_all

lemma fl_step_020 [simp]: "fl (240302797539578 / 884279719003555) = 1223852098151513 / 4503599627370496"
  by (rule fl_eqI [where n = 54 and m = "4895408392606052"]) simp_all

lemma fl_step_021 [simp]: "fl (- (177028823511171125 / 576460752303423488)) = - (2766075367362049 / 9007199254740992)"
  by (rule fl_eqI [where n = 54 and m = "- 5532150734724098"]) simp_all

lemma fl_step_022 [simp]: "fl (1486765509957101 / 4503599627370496) = 1486765509957101 / 4503599627370496"
  by (rule fl_eqI [where n = 54 and m = "5947062039828404"]) simp_all

lemma fl_step_023 [simp]: "fl (1179039625338073 / 3537118876014220) = 1501199875790165 / 4503599627370496"
  by (rule fl_eqI [where n = 54 and m = "6004799503160660"]) simp_all

lemma fl_step_024 [simp]: "fl (4716158501352293 / 14148475504056880) = 6004799503160661 / 18014398509481984"
  by (rule fl_eqI [where n = 54 and m = "6004799503160661"]) simp_all

lemma fl_step_025 [simp]: "fl (2350015472095427 / 4503599627370496) = 2350015472095427 / 4503599627370496"
  by (rule fl_eqI [where n = 53 and m = "4700030944190854"]) simp_all

lemma fl_step_026 [simp]: "fl (601603960856429355 / 1152921504606846976) = 2350015472095427 / 4503599627370496"
  by (rule fl_eqI [where n = 53 and m = "4700030944190854"]) simp_all

lemma fl_step_027 [simp]: "fl (587503868023857 / 1125899906842624) = 587503868023857 / 1125899906842624"
  by (rule fl_eqI [where n = 53 and m = "4700030944190856"]) simp_all

lemma fl_step_028 [simp]: "fl (4716158501352287 / 9007199254740992) = 4716158501352287 / 9007199254740992"
  by (rule fl_eqI [where n = 53 and m = "4716158501352287"]) simp_all

lemma fl_step_029 [simp]: "fl (4716158501352291 / 9007199254740992) = 4716158501352291 / 9007199254740992"
  by (rule fl_eqI [where n = 53 and m = "4716158501352291"]) simp_all

lemma fl_step_030 [simp]: "fl (- (4716158501352293 / 9007199254740992)) = - (4716158501352293 / 9007199254740992)"
  by (rule fl_eqI [where n = 53 and m = "- 4716158501352293"]) simp_all

lemma fl_step_031 [simp]: "fl (4716158501352293 / 9007199254740992) = 4716158501352293 / 9007199254740992"
  by (rule fl_eqI [where n = 53 and m = "4716158501352293"]) simp_all

lemma fl_step_032 [simp]: "fl (75458536021636695 / 144115188075855872) = 4716158501352293 / 9007199254740992"
  by (rule fl_eqI [where n = 53 and m = "4716158501352293"]) simp_all

lemma fl_step_033 [simp]: "fl (1210285615369993173 / 2305843009213693952) = 1181919546259759 / 2251799813685248"
  by (rule fl_eqI [where n = 53 and m = "4727678185039036"]) simp_all

lemma fl_step_034 [simp]: "fl (1181919546259759 / 2251799813685248) = 1181919546259759 / 2251799813685248"
  by (rule fl_eqI [where n = 53 and m = "4727678185039036"]) simp_all

lemma fl_step_035 [simp]: "fl (13687852723497 / 25265134828673) = 2439908151809419 / 4503599627370496"
  by (rule fl_eqI [where n = 53 and m = "4879816303618838"]) simp_all

lemma fl_step_036 [simp]: "fl (7 / 10) = 3152519739159347 / 4503599627370496"
  by (rule fl_eqI [where n = 53 and m = "6305039478318694"]) simp_all

lemma fl_step_037 [simp]: "fl (- (403674123924399 / 562949953421312)) = - (403674123924399 / 562949953421312)"
  by (rule fl_eqI [where n = 53 and m = "- 6458785982790384"]) simp_all

lemma fl_step_038 [simp]: "fl (757707073845247 / 1010605393146920) = 3376599134108671 / 4503599627370496"
  by (rule fl_eqI [where n = 53 and m = "6753198268217342"]) simp_all

lemma fl_step_039 [simp]: "fl (3 / 4) = 3 / 4"
  by (rule fl_eqI [where n = 53 and m = "6755399441055744"]) simp_all

lemma fl_step_040 [simp]: "fl (7067322563610035 / 9007199254740992) = 7067322563610035 / 9007199254740992"
  by (rule fl_eqI [where n = 53 and m = "7067322563610035"]) simp_all

lemma fl_step_041 [simp]: "fl (- (14148475504056879 / 18014398509481984)) = - (884279719003555 / 1125899906842624)"
  by (rule fl_eqI [where n = 53 and m = "- 7074237752028440"]) simp_all

lemma fl_step_042 [simp]: "fl (14148475504056879 / 18014398509481984) = 884279719003555 / 1125899906842624"
  by (rule fl_eqI [where n = 53 and m = "7074237752028440"]) simp_all

lemma fl_step_043 [simp]: "fl (884279719003555 / 1125899906842624) = 884279719003555 / 1125899906842624"
  by (rule fl_eqI [where n = 53 and m = "7074237752028440"]) simp_all

lemma fl_step_044 [simp]: "fl (- (7081152940446845 / 9007199254740992)) = - (7081152940446845 / 9007199254740992)"
  by (rule fl_eqI [where n = 53 and m = "- 7081152940446845"]) simp_all

lemma fl_step_045 [simp]: "fl (4 / 5) = 3602879701896397 / 4503599627370496"
  by (rule fl_eqI [where n = 53 and m = "7205759403792794"]) simp_all

lemma fl_step_046 [simp]: "fl (120151398769789 / 140737488355328) = 120151398769789 / 140737488355328"
  by (rule fl_eqI [where n = 53 and m = "7689689521266496"]) simp_all

lemma fl_step_047 [simp]: "fl (113977123396213 / 126325674143365) = 8126730119380191 / 9007199254740992"
  by (rule fl_eqI [where n = 53 and m = "8126730119380191"]) simp_all

lemma fl_step_048 [simp]: "fl (1621611684116001 / 1768559438007110) = 8258800489684311 / 9007199254740992"
  by (rule fl_eqI [where n = 53 and m = "8258800489684311"]) simp_all

lemma fl_step_049 [simp]: "fl (- 1) = - 1"
  by (rule fl_eqI [where n = 52 and m = "- 4503599627370496"]) simp_all

lemma fl_step_050 [simp]: "fl (- (4716158501352293 / 4503599627370496)) = - (4716158501352293 / 4503599627370496)"
  by (rule fl_eqI [where n = 52 and m = "- 4716158501352293"]) simp_all

lemma fl_step_051 [simp]: "fl (4716158501352293 / 4503599627370496) = 4716158501352293 / 4503599627370496"
  by (rule fl_eqI [where n = 52 and m = "4716158501352293"]) simp_all

lemma fl_step_052 [simp]: "fl (- (2358079250676147 / 2251799813685248)) = - (2358079250676147 / 2251799813685248)"
  by (rule fl_eqI [where n = 52 and m = "- 4716158501352294"]) simp_all

lemma fl_step_053 [simp]: "fl (- (589519812669037 / 562949953421312)) = - (589519812669037 / 562949953421312)"
  by (rule fl_eqI [where n = 52 and m = "- 4716158501352296"]) simp_all

lemma fl_step_054 [simp]: "fl (11382400136694831 / 9007199254740992) = 711400008543427 / 562949953421312"
  by (rule fl_eqI [where n = 52 and m = "5691200068347416"]) simp_all

lemma fl_step_055 [simp]: "fl (23594622883598277 / 18014398509481984) = 5898655720899569 / 4503599627370496"
  by (rule fl_eqI [where n = 52 and m = "5898655720899569"]) simp_all

lemma fl_step_056 [simp]: "fl (- (884279719003555 / 562949953421312)) = - (884279719003555 / 562949953421312)"
  by (rule fl_eqI [where n = 52 and m = "- 7074237752028440"]) simp_all

lemma fl_step_057 [simp]: "fl (884279719003555 / 562949953421312) = 884279719003555 / 562949953421312"
  by (rule fl_eqI [where n = 52 and m = "7074237752028440"]) simp_all

lemma fl_step_058 [simp]: "fl (- 2) = - 2"
  by (rule fl_eqI [where n = 51 and m = "- 4503599627370496"]) simp_all

lemma fl_step_059 [simp]: "fl (1179039625338073 / 562949953421312) = 1179039625338073 / 562949953421312"
  by (rule fl_eqI [where n = 51 and m = "4716158501352292"]) simp_all

lemma fl_step_060 [simp]: "fl (- (4716158501352293 / 2251799813685248)) = - (4716158501352293 / 2251799813685248)"
  by (rule fl_eqI [where n = 51 and m = "- 4716158501352293"]) simp_all

lemma fl_step_061 [simp]: "fl (4716158501352293 / 2251799813685248) = 4716158501352293 / 2251799813685248"
  by (rule fl_eqI [where n = 51 and m = "4716158501352293"]) simp_all

lemma fl_step_062 [simp]: "fl (- (5275458940632899525 / 2305843009213693952)) = - (643976921463977 / 281474976710656)"
  by (rule fl_eqI [where n = 51 and m = "- 5151815371711816"]) simp_all

lemma fl_step_063 [simp]: "fl (21215798067666915 / 9007199254740992) = 5303949516916729 / 2251799813685248"
  by (rule fl_eqI [where n = 51 and m = "5303949516916729"]) simp_all

lemma fl_step_064 [simp]: "fl (- (42445426512170637 / 18014398509481984)) = - (2652839157010665 / 1125899906842624)"
  by (rule fl_eqI [where n = 51 and m = "- 5305678314021330"]) simp_all

lemma fl_step_065 [simp]: "fl (- (2652839157010665 / 1125899906842624)) = - (2652839157010665 / 1125899906842624)"
  by (rule fl_eqI [where n = 51 and m = "- 5305678314021330"]) simp_all

lemma fl_step_066 [simp]: "fl (2652839157010665 / 1125899906842624) = 2652839157010665 / 1125899906842624"
  by (rule fl_eqI [where n = 51 and m = "5305678314021330"]) simp_all

lemma fl_step_067 [simp]: "fl (- (89671521754339323 / 36028797018963968)) = - (43784922731611 / 17592186044416)"
  by (rule fl_eqI [where n = 51 and m = "- 5604470109646208"]) simp_all

lemma fl_step_068 [simp]: "fl (- (5892318205768681 / 2251799813685248)) = - (5892318205768681 / 2251799813685248)"
  by (rule fl_eqI [where n = 51 and m = "- 5892318205768681"]) simp_all

lemma fl_step_069 [simp]: "fl (- (23580792506761465 / 9007199254740992)) = - (2947599063345183 / 1125899906842624)"
  by (rule fl_eqI [where n = 51 and m = "- 5895198126690366"]) simp_all

lemma fl_step_070 [simp]: "fl (- (2949615007990363 / 1125899906842624)) = - (2949615007990363 / 1125899906842624)"
  by (rule fl_eqI [where n = 51 and m = "- 5899230015980726"]) simp_all

lemma fl_step_071 [simp]: "fl (- (11798460031961453 / 4503599627370496)) = - (2949615007990363 / 1125899906842624)"
  by (rule fl_eqI [where n = 51 and m = "- 5899230015980726"]) simp_all

lemma fl_step_072 [simp]: "fl (797839863773491 / 281474976710656) = 797839863773491 / 281474976710656"
  by (rule fl_eqI [where n = 51 and m = "6382718910187928"]) simp_all

lemma fl_step_073 [simp]: "fl (12972893472928009 / 4503599627370496) = 1621611684116001 / 562949953421312"
  by (rule fl_eqI [where n = 51 and m = "6486446736464004"]) simp_all

lemma fl_step_074 [simp]: "fl (- 3) = - 3"
  by (rule fl_eqI [where n = 51 and m = "- 6755399441055744"]) simp_all

lemma fl_step_075 [simp]: "fl (- (14148475504056879 / 4503599627370496)) = - (884279719003555 / 281474976710656)"
  by (rule fl_eqI [where n = 51 and m = "- 7074237752028440"]) simp_all

lemma fl_step_076 [simp]: "fl (- (884279719003555 / 281474976710656)) = - (884279719003555 / 281474976710656)"
  by (rule fl_eqI [where n = 51 and m = "- 7074237752028440"]) simp_all

lemma fl_step_077 [simp]: "fl (7849162265762119467 / 2305843009213693952) = 479074845322395 / 140737488355328"
  by (rule fl_eqI [where n = 51 and m = "7665197525158320"]) simp_all

lemma fl_step_078 [simp]: "fl (479074845322395 / 140737488355328) = 479074845322395 / 140737488355328"
  by (rule fl_eqI [where n = 51 and m = "7665197525158320"]) simp_all

lemma fl_step_079 [simp]: "fl (- 4) = - 4"
  by (rule fl_eqI [where n = 50 and m = "- 4503599627370496"]) simp_all

lemma fl_step_080 [simp]: "fl (- (23580792506761464 / 4716158501352293)) = - 5"
  by (rule fl_eqI [where n = 50 and m = "- 5629499534213120"]) simp_all

lemma fl_step_081 [simp]: "fl (- 5) = - 5"
  by (rule fl_eqI [where n = 50 and m = "- 5629499534213120"]) simp_all

lemma fl_step_082 [simp]: "fl (11790396253380733 / 2251799813685248) = 2947599063345183 / 562949953421312"
  by (rule fl_eqI [where n = 50 and m = "5895198126690366"]) simp_all

lemma fl_step_083 [simp]: "fl (- 6) = - 6"
  by (rule fl_eqI [where n = 50 and m = "- 6755399441055744"]) simp_all

lemma fl_step_084 [simp]: "fl (- (28296951008113760 / 4716158501352293)) = - 6"
  by (rule fl_eqI [where n = 50 and m = "- 6755399441055744"]) simp_all

lemma fl_step_085 [simp]: "fl (884279719003555 / 140737488355328) = 884279719003555 / 140737488355328"
  by (rule fl_eqI [where n = 50 and m = "7074237752028440"]) simp_all

lemma fl_step_086 [simp]: "fl (- 7) = - 7"
  by (rule fl_eqI [where n = 50 and m = "- 7881299347898368"]) simp_all

lemma fl_step_087 [simp]: "fl (4716158501352293 / 562949953421312) = 4716158501352293 / 562949953421312"
  by (rule fl_eqI [where n = 49 and m = "4716158501352293"]) simp_all

lemma fl_step_088 [simp]: "fl (- (42445426512170640 / 4716158501352293)) = - 9"
  by (rule fl_eqI [where n = 49 and m = "- 5066549580791808"]) simp_all

lemma fl_step_089 [simp]: "fl (- (47161585013522928 / 4716158501352293)) = - 10"
  by (rule fl_eqI [where n = 49 and m = "- 5629499534213120"]) simp_all

lemma fl_step_090 [simp]: "fl (- 10) = - 10"
  by (rule fl_eqI [where n = 49 and m = "- 5629499534213120"]) simp_all

lemma fl_step_091 [simp]: "fl (- 11) = - 11"
  by (rule fl_eqI [where n = 49 and m = "- 6192449487634432"]) simp_all

lemma fl_step_092 [simp]: "fl (448819894471705725 / 36028797018963968) = 3506405425560201 / 281474976710656"
  by (rule fl_eqI [where n = 49 and m = "7012810851120402"]) simp_all

lemma fl_step_093 [simp]: "fl (451460011498009725 / 36028797018963968) = 3527031339828201 / 281474976710656"
  by (rule fl_eqI [where n = 49 and m = "7054062679656402"]) simp_all

lemma fl_step_094 [simp]: "fl (75 / 4) = 75 / 4"
  by (rule fl_eqI [where n = 48 and m = "5277655813324800"]) simp_all

lemma fl_step_095 [simp]: "fl (78812993478983675 / 2251799813685248) = 35"
  by (rule fl_eqI [where n = 47 and m = "4925812092436480"]) simp_all

lemma fl_step_096 [simp]: "fl (91788907361363475 / 2251799813685248) = 5736806710085217 / 140737488355328"
  by (rule fl_eqI [where n = 47 and m = "5736806710085217"]) simp_all

lemma fl_step_097 [simp]: "fl (97728111913939757 / 2251799813685248) = 6108006994621235 / 140737488355328"
  by (rule fl_eqI [where n = 47 and m = "6108006994621235"]) simp_all

lemma fl_step_098 [simp]: "fl (53592835565708899 / 1125899906842624) = 1674776111428403 / 35184372088832"
  by (rule fl_eqI [where n = 47 and m = "6699104445713612"]) simp_all

lemma fl_step_099 [simp]: "fl (112589990684262375 / 2251799813685248) = 3518437208883199 / 70368744177664"
  by (rule fl_eqI [where n = 47 and m = "7036874417766398"]) simp_all

lemma fl_step_100 [simp]: "fl (450359962737049575 / 9007199254740992) = 50"
  by (rule fl_eqI [where n = 47 and m = "7036874417766400"]) simp_all

lemma fl_step_101 [simp]: "fl 50 = 50"
  by (rule fl_eqI [where n = 47 and m = "7036874417766400"]) simp_all

lemma fl_step_102 [simp]: "fl (17580154261093001 / 281474976710656) = 2197519282636625 / 35184372088832"
  by (rule fl_eqI [where n = 47 and m = "8790077130546500"]) simp_all

lemma fl_step_103 [simp]: "fl (17600780175361001 / 281474976710656) = 2200097521920125 / 35184372088832"
  by (rule fl_eqI [where n = 47 and m = "8800390087680500"]) simp_all

lemma fl_step_104 [simp]: "fl (141863388262170615 / 2251799813685248) = 8866461766385663 / 140737488355328"
  by (rule fl_eqI [where n = 47 and m = "8866461766385663"]) simp_all

lemma fl_step_105 [simp]: "fl (275 / 4) = 275 / 4"
  by (rule fl_eqI [where n = 46 and m = "4837851162214400"]) simp_all

lemma fl_step_106 [simp]: "fl (312099454176775353 / 4503599627370496) = 4876553971512115 / 70368744177664"
  by (rule fl_eqI [where n = 46 and m = "4876553971512115"]) simp_all

lemma fl_step_107 [simp]: "fl (78812993478983675 / 1125899906842624) = 70"
  by (rule fl_eqI [where n = 46 and m = "4925812092436480"]) simp_all

lemma fl_step_108 [simp]: "fl (182993111385706425 / 2251799813685248) = 2859267365401663 / 35184372088832"
  by (rule fl_eqI [where n = 46 and m = "5718534730803326"]) simp_all

lemma fl_step_109 [simp]: "fl (12773681127851617 / 140737488355328) = 399177535245363 / 4398046511104"
  by (rule fl_eqI [where n = 46 and m = "6386840563925808"]) simp_all

lemma fl_step_110 [simp]: "fl (412980085829874457 / 4503599627370496) = 1613203460272947 / 17592186044416"
  by (rule fl_eqI [where n = 46 and m = "6452813841091788"]) simp_all

lemma fl_step_111 [simp]: "fl (7036874417766399 / 70368744177664) = 7036874417766399 / 70368744177664"
  by (rule fl_eqI [where n = 46 and m = "7036874417766399"]) simp_all

lemma fl_step_112 [simp]: "fl 100 = 100"
  by (rule fl_eqI [where n = 46 and m = "7036874417766400"]) simp_all

lemma fl_step_113 [simp]: "fl (253244935058150325 / 2251799813685248) = 3956952110283599 / 35184372088832"
  by (rule fl_eqI [where n = 46 and m = "7913904220567198"]) simp_all

lemma fl_step_114 [simp]: "fl (225 / 2) = 225 / 2"
  by (rule fl_eqI [where n = 46 and m = "7916483719987200"]) simp_all

lemma fl_step_115 [simp]: "fl (255354098871907107 / 2251799813685248) = 7979815589747097 / 70368744177664"
  by (rule fl_eqI [where n = 46 and m = "7979815589747097"]) simp_all

lemma fl_step_116 [simp]: "fl (270215977642229775 / 2251799813685248) = 120"
  by (rule fl_eqI [where n = 46 and m = "8444249301319680"]) simp_all

lemma fl_step_117 [simp]: "fl (583216151744479195 / 4503599627370496) = 259 / 2"
  by (rule fl_eqI [where n = 45 and m = "4556376185503744"]) simp_all

lemma fl_step_118 [simp]: "fl (589521191222797889 / 4503599627370496) = 4605634306428109 / 35184372088832"
  by (rule fl_eqI [where n = 45 and m = "4605634306428109"]) simp_all

lemma fl_step_119 [simp]: "fl (4618485969843263 / 35184372088832) = 4618485969843263 / 35184372088832"
  by (rule fl_eqI [where n = 45 and m = "4618485969843263"]) simp_all

lemma fl_step_120 [simp]: "fl (609504758953514325 / 4503599627370496) = 4761755929324331 / 35184372088832"
  by (rule fl_eqI [where n = 45 and m = "4761755929324331"]) simp_all

lemma fl_step_121 [simp]: "fl (619410036726323325 / 4503599627370496) = 4839140911924401 / 35184372088832"
  by (rule fl_eqI [where n = 45 and m = "4839140911924401"]) simp_all

lemma fl_step_122 [simp]: "fl (5716170714725199 / 35184372088832) = 5716170714725199 / 35184372088832"
  by (rule fl_eqI [where n = 45 and m = "5716170714725199"]) simp_all

lemma fl_step_123 [simp]: "fl (325 / 2) = 325 / 2"
  by (rule fl_eqI [where n = 45 and m = "5717460464435200"]) simp_all

lemma fl_step_124 [simp]: "fl (6520974533765931 / 35184372088832) = 6520974533765931 / 35184372088832"
  by (rule fl_eqI [where n = 45 and m = "6520974533765931"]) simp_all

lemma fl_step_125 [simp]: "fl (6598359516366001 / 35184372088832) = 6598359516366001 / 35184372088832"
  by (rule fl_eqI [where n = 45 and m = "6598359516366001"]) simp_all

subsection \<open>Floor division, parity and rounding error\<close>

lemma py_floordiv_floor: "of_int \<lfloor>py_floordiv a b\<rfloor> = py_floordiv a b"
proof -
  obtain k :: int where "py_floordiv a b = of_int k"
    using py_floordiv_integral by blast
  then show ?thesis by simp
qed

lemma same_parity_iff:
  "same_parity s a b \<longleftrightarrow> (even \<lfloor>py_floordiv a s\<rfloor> \<longleftrightarrow> even \<lfloor>py_floordiv b s\<rfloor>)"
proof -
  have "same_parity s a b \<longleftrightarrow>
          py_mod (of_int \<lfloor>py_floordiv a s\<rfloor>) 2 = py_mod (of_int \<lfloor>py_floordiv b s\<rfloor>) 2"
    by (simp only: same_parity_def py_floordiv_floor)
  also have "\<dots> \<longleftrightarrow> \<lfloor>py_floordiv a s\<rfloor> mod 2 = \<lfloor>py_floordiv b s\<rfloor> mod 2"
    by (simp only: py_mod_of_int_2 of_int_eq_iff)
  also have "\<dots> \<longleftrightarrow> (even \<lfloor>py_floordiv a s\<rfloor> \<longleftrightarrow> even \<lfloor>py_floordiv b s\<rfloor>)"
    by presburger
  finally show ?thesis .
qed

lemmas eval_defs = np_pi_def deg2rad_def lon_offset_def wrap_lon_def py_mod_def py_floordiv_def
  npy_divmod_def c_fmod_def py_int_def Let_def red_value_def green_value_def
  true_red_value_def true_green_value_def astype_uint8_def scale_pixel_def

lemma blue_darkens_70: "astype_uint8 (fl (real (unat (100 :: u8)) * fl 0.7)) = 70"
  by (simp add: eval_defs)

lemma blue_darkens_80: "astype_uint8 (fl (real (unat (150 :: u8)) * fl 0.8)) = 120"
  by (simp add: eval_defs)









subsection \<open>Rounding is monotone\<close>













subsection \<open>Evaluation at single pixels\<close>

text \<open>
  The values of float64 type are written as exact fractions. The constants:
  \<open>np.deg2rad(30)\<close> and \<open>np.deg2rad(15)\<close>.
\<close>

lemma grid_spacing_eq: "grid_spacing = 4716158501352293 / 9007199254740992"
  by (simp add: grid_spacing_def eval_defs)

lemma true_grid_spacing_eq: "true_grid_spacing = 4716158501352293 / 18014398509481984"
  by (simp add: true_grid_spacing_def eval_defs)

text \<open>
  Row 3, column 3 of \<open>generate_frame(0, 150, 25, 13)\<close>.
\<close>

lemma ex_row: "(3::nat) < 13" and ex_col: "(3::nat) < 25"
  by simp_all

lemma ex_lon: "lon 25 13 ! 3 ! 3 = - (2652839157010665 / 1125899906842624)"
  by (simp add: nth_lon nth_linspace eval_defs)

lemma ex_lat: "lat 25 13 ! 3 ! 3 = 884279719003555 / 1125899906842624"
  by (simp add: nth_lat nth_linspace eval_defs)

lemma ex_lon_moved: "lon_moved 0 150 25 13 ! 3 ! 3 = - (2652839157010665 / 1125899906842624)"
  by (simp add: nth_lon_moved nth_linspace eval_defs)

lemma ex_floor_lon: "py_floordiv (lon_moved 0 150 25 13 ! 3 ! 3) grid_spacing = - 5"
  by (simp add: ex_lon_moved grid_spacing_eq eval_defs)

lemma ex_floor_lat: "py_floordiv (lat 25 13 ! 3 ! 3) grid_spacing = 1"
  by (simp add: ex_lat grid_spacing_eq eval_defs)

lemma ex_checker: "checker 0 150 25 13 ! 3 ! 3"
  by (simp add: nth_checker same_parity_iff ex_floor_lon ex_floor_lat)

lemma ex_grid: "\<not> grid_mask 0 150 25 13 ! 3 ! 3"
  by (simp add: nth_grid_mask on_line_def ex_lon_moved ex_lat grid_spacing_eq eval_defs)

lemma ex_base: "base_colors 0 150 25 13 ! 3 ! 3 = (68, 162, 100)"
  by (simp add: nth_base_colors ex_lon_moved ex_lat eval_defs)

lemma ex_dark: "scale_pixel (fl 0.7) (68, 162, 100) = (47, 113, 70)"
  by (simp add: eval_defs)

lemma ex_img: "img_data 0 150 25 13 ! 3 ! 3 = (47, 113, 70)"
  by (simp add: nth_img_data nth_shaded ex_grid ex_checker ex_base eval_defs)

text \<open>
  Row 85, column 170 of \<open>generate_frame(0, 150, 2048, 1024)\<close>, and the same position in
  \<open>generate_true_equirectangular(2048, 1024)\<close>.
\<close>

lemma big_row: "(85::nat) < 1024" and big_col: "(170::nat) < 2048"
  by simp_all

lemma big_lon: "lon 2048 1024 ! 85 ! 170 = - (2949615007990363 / 1125899906842624)"
  by (simp add: nth_lon nth_linspace eval_defs)

lemma big_lat: "lat 2048 1024 ! 85 ! 170 = 5898655720899569 / 4503599627370496"
  by (simp add: nth_lat nth_linspace eval_defs)

lemma big_lon_moved: "lon_moved 0 150 2048 1024 ! 85 ! 170 = - (2949615007990363 / 1125899906842624)"
  by (simp add: nth_lon_moved nth_linspace eval_defs)

lemma big_floor_lon: "py_floordiv (lon_moved 0 150 2048 1024 ! 85 ! 170) grid_spacing = - 6"
  by (simp add: big_lon_moved grid_spacing_eq eval_defs)

lemma big_floor_lat: "py_floordiv (lat 2048 1024 ! 85 ! 170) grid_spacing = 2"
  by (simp add: big_lat grid_spacing_eq eval_defs)

lemma big_checker: "checker 0 150 2048 1024 ! 85 ! 170"
  by (simp add: nth_checker same_parity_iff big_floor_lon big_floor_lat)

lemma big_grid: "\<not> grid_mask 0 150 2048 1024 ! 85 ! 170"
  by (simp add: nth_grid_mask on_line_def big_lon_moved big_lat grid_spacing_eq eval_defs)

lemma big_base: "base_colors 0 150 2048 1024 ! 85 ! 170 = (62, 187, 100)"
  by (simp add: nth_base_colors big_lon_moved big_lat eval_defs)

lemma big_dark: "scale_pixel (fl 0.7) (62, 187, 100) = (43, 130, 70)"
  by (simp add: eval_defs)

lemma big_img: "img_data 0 150 2048 1024 ! 85 ! 170 = (43, 130, 70)"
  by (simp add: nth_img_data nth_shaded big_grid big_checker big_base eval_defs)

lemma big_true_grid: "true_grid_mask 2048 1024 ! 85 ! 170"
  by (simp add: nth_true_grid_mask true_on_line_def big_lon big_lat true_grid_spacing_eq eval_defs)

text \<open>
  Row 256, column 171 of \<open>generate_frame(0, 150, 2048, 1024)\<close>, and the same position in
  \<open>generate_true_equirectangular(2048, 1024)\<close>.
\<close>

lemma line_row: "(256::nat) < 1024" and line_col: "(171::nat) < 2048"
  by simp_all

lemma line_lon: "lon 2048 1024 ! 256 ! 171 = - (5892318205768681 / 2251799813685248)"
  by (simp add: nth_lon nth_linspace eval_defs)

lemma line_lat: "lat 2048 1024 ! 256 ! 171 = 7067322563610035 / 9007199254740992"
  by (simp add: nth_lat nth_linspace eval_defs)

lemma line_lon_moved: "lon_moved 0 150 2048 1024 ! 256 ! 171 = - (5892318205768681 / 2251799813685248)"
  by (simp add: nth_lon_moved nth_linspace eval_defs)

lemma line_floor_lon: "py_floordiv (lon_moved 0 150 2048 1024 ! 256 ! 171) grid_spacing = - 5"
  by (simp add: line_lon_moved grid_spacing_eq eval_defs)

lemma line_floor_lat: "py_floordiv (lat 2048 1024 ! 256 ! 171) grid_spacing = 1"
  by (simp add: line_lat grid_spacing_eq eval_defs)

lemma line_checker: "checker 0 150 2048 1024 ! 256 ! 171"
  by (simp add: nth_checker same_parity_iff line_floor_lon line_floor_lat)

lemma line_grid: "grid_mask 0 150 2048 1024 ! 256 ! 171"
  by (simp add: nth_grid_mask on_line_def line_lon_moved line_lat grid_spacing_eq eval_defs)

lemma line_base: "base_colors 0 150 2048 1024 ! 256 ! 171 = (62, 162, 100)"
  by (simp add: nth_base_colors line_lon_moved line_lat eval_defs)

lemma line_dark: "scale_pixel (fl 0.7) (62, 162, 100) = (43, 113, 70)"
  by (simp add: eval_defs)

lemma line_img: "img_data 0 150 2048 1024 ! 256 ! 171 = (255, 255, 255)"
  by (simp add: nth_img_data line_grid white_def)

lemma line_true_grid: "true_grid_mask 2048 1024 ! 256 ! 171"
  by (simp add: nth_true_grid_mask true_on_line_def line_lon line_lat true_grid_spacing_eq eval_defs)

text \<open>
  Row 745, column 1109 of \<open>generate_frame(0, 150, 2048, 1024)\<close>: the green channel 90
  darkens to 62, since the float64 product \<open>90 * 0.7\<close> is below 63.
\<close>

lemma mid_row: "(745::nat) < 1024" and mid_col: "(1109::nat) < 2048"
  by simp_all

lemma mid_lon: "lon 2048 1024 ! 745 ! 1109 = 73869971641235 / 281474976710656"
  by (simp add: nth_lon nth_linspace eval_defs)

lemma mid_lat: "lat 2048 1024 ! 745 ! 1109 = - (403674123924399 / 562949953421312)"
  by (simp add: nth_lat nth_linspace eval_defs)

lemma mid_lon_moved: "lon_moved 0 150 2048 1024 ! 745 ! 1109 = 73869971641235 / 281474976710656"
  by (simp add: nth_lon_moved nth_linspace eval_defs)

lemma mid_floor_lon: "py_floordiv (lon_moved 0 150 2048 1024 ! 745 ! 1109) grid_spacing = 0"
  by (simp add: mid_lon_moved grid_spacing_eq eval_defs)

lemma mid_floor_lat: "py_floordiv (lat 2048 1024 ! 745 ! 1109) grid_spacing = - 2"
  by (simp add: mid_lat grid_spacing_eq eval_defs)

lemma mid_checker: "checker 0 150 2048 1024 ! 745 ! 1109"
  by (simp add: nth_checker same_parity_iff mid_floor_lon mid_floor_lat)

lemma mid_grid: "\<not> grid_mask 0 150 2048 1024 ! 745 ! 1109"
  by (simp add: nth_grid_mask on_line_def mid_lon_moved mid_lat grid_spacing_eq eval_defs)

lemma mid_base: "base_colors 0 150 2048 1024 ! 745 ! 1109 = (131, 90, 100)"
  by (simp add: nth_base_colors mid_lon_moved mid_lat eval_defs)

lemma mid_dark: "scale_pixel (fl 0.7) (131, 90, 100) = (91, 62, 70)"
  by (simp add: eval_defs)

lemma mid_img: "img_data 0 150 2048 1024 ! 745 ! 1109 = (91, 62, 70)"
  by (simp add: nth_img_data nth_shaded mid_grid mid_checker mid_base eval_defs)

text \<open>
  Row 100, column 0 of \<open>generate_frame(0, 150, 2048, 1024)\<close>: the longitude is \<open>-\<pi>\<close>, whose
  float64 floor quotient by the spacing is \<open>-7\<close> and whose remainder is almost the whole spacing.
\<close>

lemma seam_row: "(100::nat) < 1024" and seam_col: "(0::nat) < 2048"
  by simp_all

lemma seam_lon: "lon 2048 1024 ! 100 ! 0 = - (884279719003555 / 281474976710656)"
  by (simp add: nth_lon nth_linspace eval_defs)

lemma seam_lat: "lat 2048 1024 ! 100 ! 0 = 711400008543427 / 562949953421312"
  by (simp add: nth_lat nth_linspace eval_defs)

lemma seam_lon_moved: "lon_moved 0 150 2048 1024 ! 100 ! 0 = - (884279719003555 / 281474976710656)"
  by (simp add: nth_lon_moved nth_linspace eval_defs)

lemma seam_floor_lon: "py_floordiv (lon_moved 0 150 2048 1024 ! 100 ! 0) grid_spacing = - 7"
  by (simp add: seam_lon_moved grid_spacing_eq eval_defs)

lemma seam_floor_lat: "py_floordiv (lat 2048 1024 ! 100 ! 0) grid_spacing = 2"
  by (simp add: seam_lat grid_spacing_eq eval_defs)

lemma seam_checker: "\<not> checker 0 150 2048 1024 ! 100 ! 0"
  by (simp add: nth_checker same_parity_iff seam_floor_lon seam_floor_lat)

lemma seam_grid: "\<not> grid_mask 0 150 2048 1024 ! 100 ! 0"
  by (simp add: nth_grid_mask on_line_def seam_lon_moved seam_lat grid_spacing_eq eval_defs)

lemma seam_base: "base_colors 0 150 2048 1024 ! 100 ! 0 = (50, 185, 100)"
  by (simp add: nth_base_colors seam_lon_moved seam_lat eval_defs)

lemma seam_img: "img_data 0 150 2048 1024 ! 100 ! 0 = (50, 185, 100)"
  by (simp add: nth_img_data nth_shaded seam_grid seam_checker seam_base)

text \<open>
  Row 3, column 8 of \<open>generate_frame(150, 150, 25, 13)\<close>.
\<close>

lemma turn_row: "(3::nat) < 13" and turn_col: "(8::nat) < 25"
  by simp_all

lemma turn_lon: "lon 25 13 ! 3 ! 8 = - (2358079250676147 / 2251799813685248)"
  by (simp add: nth_lon nth_linspace eval_defs)








lemma turn_dark: "scale_pixel (fl 0.7) (99, 162, 100) = (69, 113, 70)"
  by (simp add: eval_defs)


text \<open>
  Row 3, column 8 of \<open>generate_frame(0, 150, 25, 13)\<close>.
\<close>

lemma start_row: "(3::nat) < 13" and start_col: "(8::nat) < 25"
  by simp_all

lemma start_lon: "lon 25 13 ! 3 ! 8 = - (2358079250676147 / 2251799813685248)"
  by (simp add: nth_lon nth_linspace eval_defs)








lemma start_dark: "scale_pixel (fl 0.7) (100, 162, 100) = (70, 113, 70)"
  by (simp add: eval_defs)


subsection \<open>The claims about the raster\<close>

text \<open>
  C1. For a non-negative frame index and positive total frame count, width and
  height, \<open>generate_frame\<close> returns an image of \<open>height\<close> rows with \<open>width\<close> pixels
  each, and every channel of every pixel is at most 255 (the channels are unsigned
  8-bit values). The overlays are drawn into the raster and do not change its size.
\<close>

theorem generate_frame_raster:
  assumes "0 \<le> frame_num" "0 < total_frames" "0 < width" "0 < height"
  shows "\<exists>img. generate_frame pil np_sin e frame_num total_frames width height = Inr img \<and>
           length img = nat height \<and>
           (\<forall>row\<in>set img. length row = nat width \<and>
              (\<forall>(r, g, b)\<in>set row. unat r \<le> 255 \<and> unat g \<le> 255 \<and> unat b \<le> 255))"
proof -
  let ?img = "foldl (draw pil) (img_data frame_num total_frames (nat width) (nat height))
                (overlay_cmds np_sin e frame_num total_frames width height)"
  have g: "generate_frame pil np_sin e frame_num total_frames width height = Inr ?img"
    using assms by (simp add: generate_frame_def)
  have s: "shape ?img (nat height) (nat width)"
    by (rule shape_foldl_draw) (rule shape_img_data)
  have u: "unat v \<le> 255" for v :: u8
    using unsigned_less [of v, where ?'a = nat] by simp
  show ?thesis
    using g s u by (auto simp: shape_def)
qed

theorem generate_frame_raster_witness:
  "\<exists>img. generate_frame plain_painter rounded_sin no_fonts 0 150 25 13 = Inr img \<and> length img = 13"
  using generate_frame_raster [of 0 150 25 13 plain_painter rounded_sin no_fonts] by auto

text \<open>
  C2, as the code has it. Before the grid lines are drawn, a pixel is the darkened base
  colour (each channel times the float64 number 0.7 in \<open>generate_frame\<close>, 0.8 in
  \<open>generate_true_equirectangular\<close>, the float64 product truncated to 8 bits) exactly
  when the floor divisions \<open>lon' // spacing\<close> and \<open>lat // spacing\<close>, as numpy computes
  them on float64, have the same parity, and the base colour when their parities
  differ. The darkened colour always differs from the base colour.
\<close>

theorem checker_darkens_equal_parity:
  assumes "r < height" "c < width"
  shows "shaded frame_num total_frames width height ! r ! c =
           (if even \<lfloor>py_floordiv (lon_moved frame_num total_frames width height ! r ! c) grid_spacing\<rfloor> =
               even \<lfloor>py_floordiv (lat width height ! r ! c) grid_spacing\<rfloor>
            then scale_pixel (fl 0.7) (base_colors frame_num total_frames width height ! r ! c)
            else base_colors frame_num total_frames width height ! r ! c) \<and>
         scale_pixel (fl 0.7) (base_colors frame_num total_frames width height ! r ! c) \<noteq>
           base_colors frame_num total_frames width height ! r ! c \<and>
         true_shaded width height ! r ! c =
           (if even \<lfloor>py_floordiv (lon width height ! r ! c) true_grid_spacing\<rfloor> =
               even \<lfloor>py_floordiv (lat width height ! r ! c) true_grid_spacing\<rfloor>
            then scale_pixel (fl 0.8) (true_base_colors width height ! r ! c)
            else true_base_colors width height ! r ! c) \<and>
         scale_pixel (fl 0.8) (true_base_colors width height ! r ! c) \<noteq>
           true_base_colors width height ! r ! c"
proof -
  have 1: "scale_pixel (fl 0.7) (base_colors frame_num total_frames width height ! r ! c) \<noteq>
             base_colors frame_num total_frames width height ! r ! c"
    unfolding nth_base_colors [OF assms] scale_pixel_def
    by (simp only: prod.case prod.inject blue_darkens_70) simp
  have 2: "scale_pixel (fl 0.8) (true_base_colors width height ! r ! c) \<noteq>
             true_base_colors width height ! r ! c"
    unfolding nth_true_base_colors [OF assms] scale_pixel_def
    by (simp only: prod.case prod.inject blue_darkens_80) simp
  show ?thesis
    using 1 2
    by (simp add: nth_shaded [OF assms] nth_checker [OF assms] nth_true_shaded [OF assms]
          nth_true_checker [OF assms] same_parity_iff)
qed

theorem checker_darkens_equal_parity_witness:
  "(745::nat) < 1024 \<and> (1109::nat) < 2048 \<and>
   even \<lfloor>py_floordiv (lon_moved 0 150 2048 1024 ! 745 ! 1109) grid_spacing\<rfloor> =
     even \<lfloor>py_floordiv (lat 2048 1024 ! 745 ! 1109) grid_spacing\<rfloor> \<and>
   base_colors 0 150 2048 1024 ! 745 ! 1109 = (131, 90, 100) \<and>
   shaded 0 150 2048 1024 ! 745 ! 1109 = (91, 62, 70)"
proof -
  have p: "even \<lfloor>py_floordiv (lon_moved 0 150 2048 1024 ! 745 ! 1109) grid_spacing\<rfloor> =
             even \<lfloor>py_floordiv (lat 2048 1024 ! 745 ! 1109) grid_spacing\<rfloor>"
    by (simp add: mid_floor_lon mid_floor_lat)
  from checker_darkens_equal_parity [OF mid_row mid_col, of 0 150] p
  have "shaded 0 150 2048 1024 ! 745 ! 1109 =
          scale_pixel (fl 0.7) (base_colors 0 150 2048 1024 ! 745 ! 1109)"
    by simp
  then have "shaded 0 150 2048 1024 ! 745 ! 1109 = (91, 62, 70)"
    by (simp only: mid_base mid_dark)
  with p mid_base show ?thesis by simp
qed

text \<open>
  C2 as stated fails at row 3, column 3 of \<open>generate_frame(0, 150, 25, 13)\<close>: both
  floor quotients are odd (\<open>-5\<close> and \<open>1\<close>), so the exclusive-or of their parities is
  false, and the pixel is the darkened \<open>(47, 113, 70)\<close> and not the base colour
  \<open>(68, 162, 100)\<close>.
\<close>

theorem checker_xor_counterexample:
  "py_floordiv (lon_moved 0 150 25 13 ! 3 ! 3) grid_spacing = - 5 \<and>
   py_floordiv (lat 25 13 ! 3 ! 3) grid_spacing = 1 \<and>
   \<not> (odd \<lfloor>py_floordiv (lon_moved 0 150 25 13 ! 3 ! 3) grid_spacing\<rfloor> \<noteq>
        odd \<lfloor>py_floordiv (lat 25 13 ! 3 ! 3) grid_spacing\<rfloor>) \<and>
   base_colors 0 150 25 13 ! 3 ! 3 = (68, 162, 100) \<and>
   img_data 0 150 25 13 ! 3 ! 3 = (47, 113, 70)"
  by (simp add: ex_floor_lon ex_floor_lat ex_base ex_img)

text \<open>
  C3. In the composited raster of either generator, a pixel whose grid-mask entry is
  set is (255, 255, 255), whatever its base colour and whether or not the checker
  darkened it.
\<close>

theorem grid_line_pixels_white:
  assumes "r < height" "c < width"
  shows "(grid_mask frame_num total_frames width height ! r ! c \<longrightarrow>
            img_data frame_num total_frames width height ! r ! c = (255, 255, 255)) \<and>
         (true_grid_mask width height ! r ! c \<longrightarrow>
            true_img_data width height ! r ! c = (255, 255, 255))"
  by (simp add: nth_img_data [OF assms] nth_true_img_data [OF assms] white_def)

theorem grid_line_pixels_white_witness:
  "(256::nat) < 1024 \<and> (171::nat) < 2048 \<and>
   checker 0 150 2048 1024 ! 256 ! 171 \<and>
   grid_mask 0 150 2048 1024 ! 256 ! 171 \<and>
   img_data 0 150 2048 1024 ! 256 ! 171 = (255, 255, 255) \<and>
   true_grid_mask 2048 1024 ! 256 ! 171 \<and>
   true_img_data 2048 1024 ! 256 ! 171 = (255, 255, 255)"
proof -
  from grid_line_pixels_white [OF line_row line_col, of 0 150] line_grid line_true_grid
    line_checker
  show ?thesis by simp
qed

text \<open>
  C4. In \<open>generate_frame(0, 150, 2048, 1024)\<close>, the rotated longitude of row 85,
  column 170 is 0.0018 rad below the multiple \<open>-5\<close> of the grid spacing, within the
  tolerance 0.015; the pixel is not flagged and stays the darkened colour
  \<open>(43, 130, 70)\<close>. The grid mask of \<open>generate_true_equirectangular\<close> flags the same
  position.
\<close>

theorem grid_band_one_sided_at_default_size:
  "\<bar>lon_moved 0 150 2048 1024 ! 85 ! 170 - (- 5) * grid_spacing\<bar> < 0.015 \<and>
   \<not> grid_mask 0 150 2048 1024 ! 85 ! 170 \<and>
   img_data 0 150 2048 1024 ! 85 ! 170 = (43, 130, 70) \<and>
   true_grid_mask 2048 1024 ! 85 ! 170"
proof -
  have d: "\<bar>lon_moved 0 150 2048 1024 ! 85 ! 170 - (- 5) * grid_spacing\<bar> < 0.015"
    by (simp add: big_lon_moved grid_spacing_eq)
  from d big_grid big_img big_true_grid show ?thesis by blast
qed




text \<open>
  C6. Two environments with the same font availability give the same result of
  \<open>generate_frame\<close> on the same arguments: the function reads nothing else, and
  neither takes nor returns any other state.
\<close>

theorem generate_frame_deterministic:
  assumes "font_availability e1 = font_availability e2"
  shows "generate_frame pil np_sin e1 frame_num total_frames width height =
         generate_frame pil np_sin e2 frame_num total_frames width height"
  using load_fonts_cong [OF assms]
  by (simp add: generate_frame_def overlay_cmds_def)

theorem generate_frame_deterministic_witness:
  "font_availability no_fonts = font_availability no_fonts_after_save \<and>
   path_exists no_fonts ''temp_frames/frame_0000.png'' \<noteq>
     path_exists no_fonts_after_save ''temp_frames/frame_0000.png'' \<and>
   generate_frame plain_painter rounded_sin no_fonts 1 150 25 13 =
     generate_frame plain_painter rounded_sin no_fonts_after_save 1 150 25 13"
proof -
  have h: "font_availability no_fonts = font_availability no_fonts_after_save"
    by (simp add: font_availability_def no_fonts_def no_fonts_after_save_def helvetica_def arial_def)
  show ?thesis
    using h generate_frame_deterministic [OF h, of plain_painter rounded_sin 1 150 25 13]
    by (simp add: no_fonts_def no_fonts_after_save_def)
qed

text \<open>
  C7. With \<open>total_frames = 0\<close> the function raises ZeroDivisionError, for any other
  arguments and any environment. With a non-zero frame count and positive width and
  height it returns an image in every environment, also when no font can be loaded.
\<close>

theorem zero_frames_division_error:
  "generate_frame pil np_sin e frame_num 0 width height = Inl ZeroDivisionError \<and>
   (total_frames \<noteq> 0 \<and> 0 < width \<and> 0 < height \<longrightarrow>
      (\<exists>img. generate_frame pil np_sin e frame_num total_frames width height = Inr img))"
  by (simp add: generate_frame_def)

theorem zero_frames_division_error_witness:
  "generate_frame plain_painter rounded_sin no_fonts 5 0 25 13 = Inl ZeroDivisionError \<and>
   load_fonts no_fonts = (DefaultFont, DefaultFont) \<and>
   (\<exists>img. generate_frame plain_painter rounded_sin no_fonts 5 150 25 13 = Inr img)"
  using zero_frames_division_error [of plain_painter rounded_sin no_fonts 5 25 13 150]
  by (simp add: load_fonts_def no_fonts_def)

end
